theory Spec2Isabelle
  imports Complex_Main "HOL-Library.Sublist"
begin

section \<open>Values exchanged with the outside world\<close>

text \<open>
  The worker reads JSON documents (knowledge bases from the KV store, the reply of the
  language model) with the built-in \<^verbatim>\<open>JSON.parse\<close>. A parsed document is a value of
  \<open>json\<close>. A JSON number is carried as the rational value of the finite double that the
  parser produced; the code only tests numbers for zero and copies them.
\<close>

datatype json =
    JNull
  | JBool bool
  | JNum rat
  | JStr string
  | JArr "json list"
  | JObj "(string \<times> json) list"

text \<open>The outcome of \<^verbatim>\<open>JSON.parse\<close> on a text: a SyntaxError or a value.\<close>

datatype json_text = Unparseable | Parses json

text \<open>
  Property read \<^verbatim>\<open>v.k\<close> on a value that is neither null nor undefined; \<open>None\<close> is
  JavaScript's \<^verbatim>\<open>undefined\<close>. Of a repeated key the last entry counts, as in
  \<^verbatim>\<open>JSON.parse\<close>. None of the keys read by the worker is inherited from a prototype.
\<close>

fun get_prop :: "json \<Rightarrow> string \<Rightarrow> json option" where
  "get_prop (JObj kvs) k = map_of (rev kvs) k"
| "get_prop _ k = None"

text \<open>Optional chaining \<^verbatim>\<open>v?.k\<close>.\<close>

fun opt_chain :: "json option \<Rightarrow> string \<Rightarrow> json option" where
  "opt_chain None k = None"
| "opt_chain (Some JNull) k = None"
| "opt_chain (Some v) k = get_prop v k"

text \<open>JavaScript truthiness of a possibly undefined value.\<close>

fun js_truthy :: "json option \<Rightarrow> bool" where
  "js_truthy None = False"
| "js_truthy (Some JNull) = False"
| "js_truthy (Some (JBool b)) = b"
| "js_truthy (Some (JNum x)) = (x \<noteq> 0)"
| "js_truthy (Some (JStr s)) = (s \<noteq> [])"
| "js_truthy (Some (JArr _)) = True"
| "js_truthy (Some (JObj _)) = True"

text \<open>
  Truthiness of an optional string (\<^verbatim>\<open>env.AWAITING_INFO_LABEL_ID\<close>,
  \<^verbatim>\<open>plan.clarificationComment\<close>): the string when it is defined and not empty.
\<close>

fun truthy_str :: "string option \<Rightarrow> string option" where
  "truthy_str None = None"
| "truthy_str (Some s) = (if s = [] then None else Some s)"

text \<open>\<^verbatim>\<open>s.includes(pat)\<close>: \<open>pat\<close> occurs in \<open>s\<close> as a contiguous substring.\<close>

fun str_includes :: "string \<Rightarrow> string \<Rightarrow> bool" where
  "str_includes [] pat = (pat = [])"
| "str_includes (c # cs) pat = (prefix pat (c # cs) \<or> str_includes cs pat)"

section \<open>The triage plan (llm.ts)\<close>

datatype priority = Urgent | High | Medium | Low | NoPriority

record rewrite_fields =
  rw_title :: "string option"
  rw_description :: "string option"

record TriagePlan =
  rewrite :: "rewrite_fields option"
  priority :: "priority option"
  teamId :: "string option"
  labelIds :: "string list option"
  estimate :: "rat option"
  assigneeId :: "string option"
  subtasks :: "string list option"
  needsClarification :: bool
  clarificationComment :: "string option"

section \<open>Tracker operations (linear.ts)\<close>

record IssueUpdatePayload =
  upd_title :: "string option"
  upd_description :: "string option"
  upd_teamId :: "string option"
  upd_labelIds :: "string list option"
  upd_estimate :: "rat option"
  upd_priority :: "nat option"
  upd_assigneeId :: "string option"

text \<open>
  Every effect a handler can have on the outside world, in the order issued: reads of the
  KV store (by key), requests to the language model (model name and user content), the
  pause between two attempts (in milliseconds), and the GraphQL requests sent to the
  tracker (issue identifier first). Log output is not an effect of the model.
\<close>

datatype call =
    KvGet string
  | LlmRequest string string
  | Sleep nat
  | GetIssue string
  | GetComments string
  | UpdateIssue string IssueUpdatePayload
  | CreateSubtask string string
  | CreateComment string string
  | Subscribe string string
  | AddReaction string string

text \<open>The requests that write to the tracker.\<close>

fun is_mutation :: "call \<Rightarrow> bool" where
  "is_mutation (UpdateIssue _ _) = True"
| "is_mutation (CreateSubtask _ _) = True"
| "is_mutation (CreateComment _ _) = True"
| "is_mutation (Subscribe _ _) = True"
| "is_mutation (AddReaction _ _) = True"
| "is_mutation _ = False"

datatype error =
    KbNotFound string
  | SyntaxError
  | TypeError
  | LinearKeyNotSet
  | OpenAIKeyNotSet
  | PlanGenerationFailed
  | ExitedRetryLoop
  | GraphQLRequestFailed
  | FetchIssueFailed string
  | FetchCommentsFailed string
  | UpdateIssueFailed string
  | CreateCommentFailed string
  | SubscribeFailed string string
  | AddReactionFailed string

text \<open>
  An asynchronous function of the worker returns a value or throws, and issues calls on
  the way: the result and the calls issued, in order.
\<close>

type_synonym 'a eff = "(error + 'a) \<times> call list"

definition ret :: "'a \<Rightarrow> 'a eff" where
  "ret x = (Inr x, [])"

definition throw :: "error \<Rightarrow> 'a eff" where
  "throw e = (Inl e, [])"

definition emit :: "call \<Rightarrow> unit eff" where
  "emit c = (Inr (), [c])"

text \<open>\<^verbatim>\<open>const x = await m; f(x)\<close>: a throw of \<open>m\<close> ends the sequence.\<close>

definition bind :: "'a eff \<Rightarrow> ('a \<Rightarrow> 'b eff) \<Rightarrow> 'b eff" where
  "bind m f = (case m of
       (Inl e, t) \<Rightarrow> (Inl e, t)
     | (Inr x, t) \<Rightarrow> (case f x of (r, t') \<Rightarrow> (r, t @ t')))"

section \<open>Environment, process state and the outside world\<close>

record Env =
  AWAITING_INFO_LABEL_ID :: "string option"
  LINEAR_API_KEY :: string
  OPENAI_API_KEY :: string
  OPENAI_MODEL :: string

text \<open>
  The module-level singletons \<^verbatim>\<open>openai\<close> and \<^verbatim>\<open>linearClient\<close>: whether each is
  already constructed when the event arrives. Within one event the environment is fixed,
  so every later request for a client ends as the first one did; the assignment itself is
  not threaded through the model.
\<close>

record globals =
  openai :: bool
  linearClient :: bool

datatype 'a reply = Rejected | Reply 'a

datatype llm_reply = ApiError | NoContent | Content json_text

record issue =
  i_title :: string
  i_description :: "string option"
  i_labelIds :: "string list"

record comment =
  c_user_name :: "string option"
  c_body :: string

text \<open>
  What the collaborators answer. \<open>kv k\<close> is the text stored under key \<open>k\<close> as
  \<^verbatim>\<open>JSON.parse\<close> reads it (\<open>None\<close>: no entry, or an empty text). \<open>llm i\<close> is the
  model's answer to attempt \<open>i\<close> (counted from 0) of the one plan request of the event;
  the system prompt with the serialised knowledge bases is fixed during the event and is
  not modelled. \<open>success c\<close> tells for a GraphQL mutation whether the request was
  rejected or what the \<^verbatim>\<open>success\<close> flag of its answer was.
\<close>

record world =
  kv :: "string \<Rightarrow> json_text option"
  llm :: "nat \<Rightarrow> llm_reply"
  issue_reply :: "string \<Rightarrow> issue option reply"
  comments_reply :: "string \<Rightarrow> comment list option reply"
  success :: "call \<Rightarrow> bool reply"

section \<open>Knowledge base access (kb.ts)\<close>

definition KB_KEY :: string where
  "KB_KEY = ''team_rules.json''"

definition LABELS_KEY :: string where
  "LABELS_KEY = ''labels.json''"

definition kvRead :: "world \<Rightarrow> string \<Rightarrow> json eff" where
  "kvRead w key = bind (emit (KvGet key)) (\<lambda>_.
     case kv w key of
       None \<Rightarrow> throw (KbNotFound key)
     | Some Unparseable \<Rightarrow> throw SyntaxError
     | Some (Parses j) \<Rightarrow> ret j)"

definition getTeamKnowledgeBase :: "world \<Rightarrow> json eff" where
  "getTeamKnowledgeBase w = kvRead w KB_KEY"

definition getLabelKnowledgeBase :: "world \<Rightarrow> json eff" where
  "getLabelKnowledgeBase w = kvRead w LABELS_KEY"

text \<open>\<^verbatim>\<open>labelKb?.data?.issueLabels?.nodes\<close>\<close>

definition kb_nodes :: "json \<Rightarrow> json option" where
  "kb_nodes labelKb =
     opt_chain (opt_chain (opt_chain (Some labelKb) ''data'') ''issueLabels'') ''nodes''"

text \<open>
  \<^verbatim>\<open>new Set(nodes.map(l => l.id))\<close> for an array \<open>ls\<close> without a null entry, and
  \<^verbatim>\<open>.has(id)\<close> for a string \<open>id\<close>.
\<close>

definition id_set :: "json list \<Rightarrow> json option list" where
  "id_set ls = map (\<lambda>l. get_prop l ''id'') ls"

definition has_id :: "json option list \<Rightarrow> string \<Rightarrow> bool" where
  "has_id s i = (Some (JStr i) \<in> set s)"

text \<open>
  \<^verbatim>\<open>validateLabelIds\<close> reads the label knowledge base again. A missing or falsy
  \<^verbatim>\<open>nodes\<close> path gives the empty list. Otherwise \<^verbatim>\<open>nodes.map\<close> is called: on a
  value that is not an array it is not a function, and reading \<^verbatim>\<open>l.id\<close> of a null
  entry fails; both are TypeErrors.
\<close>

definition validateLabelIds :: "world \<Rightarrow> string list \<Rightarrow> string list eff" where
  "validateLabelIds w ids = bind (getLabelKnowledgeBase w) (\<lambda>labelKb.
     if \<not> js_truthy (kb_nodes labelKb) then ret []
     else (case kb_nodes labelKb of
         Some (JArr ls) \<Rightarrow>
           if JNull \<in> set ls then throw TypeError
           else ret (filter (has_id (id_set ls)) ids)
       | _ \<Rightarrow> throw TypeError))"

section \<open>Tracker client (linear.ts)\<close>

definition getLinearClient :: "Env \<Rightarrow> globals \<Rightarrow> unit eff" where
  "getLinearClient env g =
     (if \<not> linearClient g then
        (if LINEAR_API_KEY env = [] then throw LinearKeyNotSet else ret ())
      else ret ())"

text \<open>
  \<^verbatim>\<open>makeGraphQLRequest\<close>: obtain the client, send the request \<open>c\<close>; a rejected request
  is rethrown, otherwise the data \<open>r\<close> of the answer is returned.
\<close>

definition makeGraphQLRequest :: "Env \<Rightarrow> globals \<Rightarrow> call \<Rightarrow> 'a reply \<Rightarrow> 'a eff" where
  "makeGraphQLRequest env g c r = bind (getLinearClient env g) (\<lambda>_.
     bind (emit c) (\<lambda>_.
       case r of Rejected \<Rightarrow> throw GraphQLRequestFailed | Reply d \<Rightarrow> ret d))"

definition getIssue :: "Env \<Rightarrow> globals \<Rightarrow> world \<Rightarrow> string \<Rightarrow> issue eff" where
  "getIssue env g w issueId =
     bind (makeGraphQLRequest env g (GetIssue issueId) (issue_reply w issueId)) (\<lambda>d.
       case d of None \<Rightarrow> throw (FetchIssueFailed issueId) | Some i \<Rightarrow> ret i)"

definition getComments :: "Env \<Rightarrow> globals \<Rightarrow> world \<Rightarrow> string \<Rightarrow> comment list eff" where
  "getComments env g w issueId =
     bind (makeGraphQLRequest env g (GetComments issueId) (comments_reply w issueId)) (\<lambda>d.
       case d of None \<Rightarrow> throw (FetchCommentsFailed issueId) | Some cs \<Rightarrow> ret cs)"

definition updateIssue :: "Env \<Rightarrow> globals \<Rightarrow> world \<Rightarrow> string \<Rightarrow> IssueUpdatePayload \<Rightarrow> unit eff" where
  "updateIssue env g w issueId payload = bind (getLinearClient env g) (\<lambda>_.
     bind (makeGraphQLRequest env g (UpdateIssue issueId payload)
             (success w (UpdateIssue issueId payload))) (\<lambda>ok.
       if \<not> ok then throw (UpdateIssueFailed issueId) else ret ()))"

text \<open>
  \<^verbatim>\<open>createMultipleSubtasks\<close> starts one request per title, in the order of the list,
  and waits for all of them to settle; it never throws. It returns the subtasks whose
  request was answered with success.
\<close>

definition createMultipleSubtasks ::
  "Env \<Rightarrow> globals \<Rightarrow> world \<Rightarrow> string \<Rightarrow> string list \<Rightarrow> string list eff" where
  "createMultipleSubtasks env g w parentId titles =
     (let results = map (\<lambda>t. makeGraphQLRequest env g (CreateSubtask parentId t)
                                (success w (CreateSubtask parentId t))) titles
      in (Inr (map fst (filter (\<lambda>(t, r). fst r = Inr True) (zip titles results))),
          concat (map snd results)))"

definition createComment :: "Env \<Rightarrow> globals \<Rightarrow> world \<Rightarrow> string \<Rightarrow> string \<Rightarrow> unit eff" where
  "createComment env g w issueId body =
     bind (makeGraphQLRequest env g (CreateComment issueId body)
             (success w (CreateComment issueId body))) (\<lambda>ok.
       if \<not> ok then throw (CreateCommentFailed issueId) else ret ())"

definition subscribeToIssue :: "Env \<Rightarrow> globals \<Rightarrow> world \<Rightarrow> string \<Rightarrow> string \<Rightarrow> unit eff" where
  "subscribeToIssue env g w issueId userId =
     bind (makeGraphQLRequest env g (Subscribe issueId userId)
             (success w (Subscribe issueId userId))) (\<lambda>ok.
       if \<not> ok then throw (SubscribeFailed userId issueId) else ret ())"

definition addReaction :: "Env \<Rightarrow> globals \<Rightarrow> world \<Rightarrow> string \<Rightarrow> string \<Rightarrow> unit eff" where
  "addReaction env g w issueId emoji =
     bind (makeGraphQLRequest env g (AddReaction issueId emoji)
             (success w (AddReaction issueId emoji))) (\<lambda>ok.
       if \<not> ok then throw (AddReactionFailed issueId) else ret ())"

section \<open>Plan generation (llm.ts)\<close>

text \<open>
  The schema, field by field. A validator returns \<open>None\<close> where zod reports an issue.
  \<^verbatim>\<open>.optional()\<close> accepts an absent key and nothing else beyond the inner type: a JSON
  null is refused. Keys the schema does not name are dropped.
\<close>

fun z_string :: "json \<Rightarrow> string option" where
  "z_string (JStr s) = Some s"
| "z_string _ = None"

fun z_number :: "json \<Rightarrow> rat option" where
  "z_number (JNum x) = Some x"
| "z_number _ = None"

fun z_boolean :: "json \<Rightarrow> bool option" where
  "z_boolean (JBool b) = Some b"
| "z_boolean _ = None"

fun z_strings :: "json list \<Rightarrow> string list option" where
  "z_strings [] = Some []"
| "z_strings (JStr s # xs) = map_option (Cons s) (z_strings xs)"
| "z_strings (_ # xs) = None"

fun z_string_array :: "json \<Rightarrow> string list option" where
  "z_string_array (JArr xs) = z_strings xs"
| "z_string_array _ = None"

fun z_priority :: "json \<Rightarrow> priority option" where
  "z_priority (JStr s) =
     (if s = ''Urgent'' then Some Urgent
      else if s = ''High'' then Some High
      else if s = ''Medium'' then Some Medium
      else if s = ''Low'' then Some Low
      else if s = ''No priority'' then Some NoPriority
      else None)"
| "z_priority _ = None"

fun z_optional :: "(json \<Rightarrow> 'a option) \<Rightarrow> json option \<Rightarrow> 'a option option" where
  "z_optional p None = Some None"
| "z_optional p (Some v) = map_option Some (p v)"

fun z_rewrite :: "json \<Rightarrow> rewrite_fields option" where
  "z_rewrite (JObj kvs) =
     Option.bind (z_optional z_string (get_prop (JObj kvs) ''title'')) (\<lambda>t.
     Option.bind (z_optional z_string (get_prop (JObj kvs) ''description'')) (\<lambda>d.
       Some \<lparr>rw_title = t, rw_description = d\<rparr>))"
| "z_rewrite _ = None"

fun TriagePlanSchema_parse :: "json \<Rightarrow> TriagePlan option" where
  "TriagePlanSchema_parse (JObj kvs) =
     Option.bind (z_optional z_rewrite (get_prop (JObj kvs) ''rewrite'')) (\<lambda>rw.
     Option.bind (z_optional z_priority (get_prop (JObj kvs) ''priority'')) (\<lambda>pr.
     Option.bind (z_optional z_string (get_prop (JObj kvs) ''teamId'')) (\<lambda>tm.
     Option.bind (z_optional z_string_array (get_prop (JObj kvs) ''labelIds'')) (\<lambda>ls.
     Option.bind (z_optional z_number (get_prop (JObj kvs) ''estimate'')) (\<lambda>es.
     Option.bind (z_optional z_string (get_prop (JObj kvs) ''assigneeId'')) (\<lambda>asg.
     Option.bind (z_optional z_string_array (get_prop (JObj kvs) ''subtasks'')) (\<lambda>sts.
     Option.bind (Option.bind (get_prop (JObj kvs) ''needsClarification'') z_boolean) (\<lambda>nc.
     Option.bind (z_optional z_string (get_prop (JObj kvs) ''clarificationComment'')) (\<lambda>cc.
       Some \<lparr>rewrite = rw, priority = pr, teamId = tm, labelIds = ls, estimate = es,
             assigneeId = asg, subtasks = sts, needsClarification = nc,
             clarificationComment = cc\<rparr>)))))))))"
| "TriagePlanSchema_parse _ = None"

definition getOpenAIClient :: "Env \<Rightarrow> globals \<Rightarrow> unit eff" where
  "getOpenAIClient env g =
     (if \<not> openai g then
        (if OPENAI_API_KEY env = [] then throw OpenAIKeyNotSet else ret ())
      else ret ())"

definition MAX_RETRIES :: nat where
  "MAX_RETRIES = 3"

definition RETRY_DELAY_MS :: nat where
  "RETRY_DELAY_MS = 1000"

text \<open>
  The body of the \<^verbatim>\<open>try\<close> block once the request is sent: the plan it returns, or
  \<open>None\<close> when it throws (the request fails, the content is empty, the content is not
  JSON, the JSON does not conform to the schema).
\<close>

fun attempt :: "llm_reply \<Rightarrow> TriagePlan option" where
  "attempt ApiError = None"
| "attempt NoContent = None"
| "attempt (Content Unparseable) = None"
| "attempt (Content (Parses j)) = TriagePlanSchema_parse j"

definition model_name :: "Env \<Rightarrow> string" where
  "model_name env = (if OPENAI_MODEL env = [] then ''gpt-4o-mini'' else OPENAI_MODEL env)"

text \<open>The \<^verbatim>\<open>for\<close> loop of \<^verbatim>\<open>getTriagePlan\<close>, from counter \<open>i\<close> on.\<close>

function retryLoop :: "Env \<Rightarrow> world \<Rightarrow> string \<Rightarrow> nat \<Rightarrow> TriagePlan eff" where
  "retryLoop env w issueContent i =
     (if i < MAX_RETRIES then
        bind (emit (LlmRequest (model_name env) issueContent)) (\<lambda>_.
          case attempt (llm w i) of
            Some plan \<Rightarrow> ret plan
          | None \<Rightarrow>
              if i = MAX_RETRIES - 1 then throw PlanGenerationFailed
              else bind (emit (Sleep (RETRY_DELAY_MS * (i + 1)))) (\<lambda>_.
                     retryLoop env w issueContent (i + 1)))
      else throw ExitedRetryLoop)"
  by pat_completeness auto
termination
  by (relation "measure (\<lambda>(env, w, c, i). MAX_RETRIES - i)") auto

definition getTriagePlan :: "Env \<Rightarrow> globals \<Rightarrow> world \<Rightarrow> string \<Rightarrow> TriagePlan eff" where
  "getTriagePlan env g w issueContent =
     bind (getOpenAIClient env g) (\<lambda>_. retryLoop env w issueContent 0)"

section \<open>The handlers (worker.ts)\<close>

fun priorityMap :: "priority \<Rightarrow> nat" where
  "priorityMap NoPriority = 0"
| "priorityMap Urgent = 1"
| "priorityMap High = 2"
| "priorityMap Medium = 3"
| "priorityMap Low = 4"

record IssueData =
  d_id :: string
  d_title :: string
  d_description :: "string option"
  d_creator :: "string option"

record CommentData =
  d_body :: string
  d_issue_id :: string

definition BOT_MARKER :: string where
  "BOT_MARKER = ''<!-- bot -->''"

text \<open>The reaction \<^verbatim>\<open>U+2705\<close>, as its UTF-8 bytes.\<close>

definition CHECK_MARK :: string where
  "CHECK_MARK = [CHR 0xE2, CHR 0x9C, CHR 0x85]"

definition NL2 :: string where
  "NL2 = [CHR 0x0A, CHR 0x0A]"

text \<open>\<^verbatim>\<open>s || ''\<close> for an optional string.\<close>

fun or_empty :: "string option \<Rightarrow> string" where
  "or_empty None = []"
| "or_empty (Some s) = s"

fun join :: "string \<Rightarrow> string list \<Rightarrow> string" where
  "join sep [] = []"
| "join sep [x] = x"
| "join sep (x # y # ys) = x @ sep @ join sep (y # ys)"

text \<open>
  \<^verbatim>\<open>plan.needsClarification && plan.clarificationComment\<close>: the comment to post when the
  conjunction is truthy.
\<close>

definition clarification :: "TriagePlan \<Rightarrow> string option" where
  "clarification plan =
     (if needsClarification plan then truthy_str (clarificationComment plan) else None)"

text \<open>\<^verbatim>\<open>labelIds || []\<close>\<close>

fun or_nil :: "string list option \<Rightarrow> string list" where
  "or_nil None = []"
| "or_nil (Some xs) = xs"

text \<open>The \<^verbatim>\<open>issueContent\<close> of a new issue.\<close>

definition newIssueContent :: "IssueData \<Rightarrow> string" where
  "newIssueContent data =
     ''Title: '' @ d_title data @ NL2 @ ''Description: '' @ or_empty (d_description data)"

text \<open>
  The update sent on the clarification branch of a new issue: \<^verbatim>\<open>{ labelIds: [marker] }\<close>.
\<close>

definition markerOnly :: "string \<Rightarrow> IssueUpdatePayload" where
  "markerOnly marker =
     \<lparr>upd_title = None, upd_description = None, upd_teamId = None,
      upd_labelIds = Some [marker], upd_estimate = None,
      upd_priority = None, upd_assigneeId = None\<rparr>"

text \<open>The update sent on the completion branch of a new issue.\<close>

definition newIssueUpdate :: "TriagePlan \<Rightarrow> string list \<Rightarrow> IssueUpdatePayload" where
  "newIssueUpdate plan validLabelIds =
     \<lparr>upd_title = None, upd_description = None, upd_teamId = teamId plan,
      upd_labelIds = Some validLabelIds, upd_estimate = estimate plan,
      upd_priority = map_option priorityMap (priority plan),
      upd_assigneeId = assigneeId plan\<rparr>"

text \<open>
  \<^verbatim>\<open>if (subtasks && subtasks.length > 0) await createMultipleSubtasks(...)\<close>, shared by
  both handlers.
\<close>

definition createRequestedSubtasks ::
  "Env \<Rightarrow> globals \<Rightarrow> world \<Rightarrow> string \<Rightarrow> string list option \<Rightarrow> unit eff" where
  "createRequestedSubtasks env g w issueId sts =
     (case sts of
        Some ts \<Rightarrow>
          if length ts > 0
          then bind (createMultipleSubtasks env g w issueId ts) (\<lambda>_. ret ())
          else ret ()
      | None \<Rightarrow> ret ())"

text \<open>
  The action dispatch of \<^verbatim>\<open>handleNewIssue\<close>, the \<^verbatim>\<open>if\<close> statement that follows the
  plan request: what is sent to the tracker for the plan \<open>plan\<close>.
\<close>

definition newIssueActions :: "Env \<Rightarrow> globals \<Rightarrow> world \<Rightarrow> IssueData \<Rightarrow> TriagePlan \<Rightarrow> unit eff" where
  "newIssueActions env g w data plan =
     (case clarification plan of
        Some c \<Rightarrow>
          bind (createComment env g w (d_id data) c) (\<lambda>_.
            case truthy_str (AWAITING_INFO_LABEL_ID env) of
              Some marker \<Rightarrow> updateIssue env g w (d_id data) (markerOnly marker)
            | None \<Rightarrow> ret ())
      | None \<Rightarrow>
          bind (validateLabelIds w (or_nil (labelIds plan))) (\<lambda>validLabelIds.
          bind (updateIssue env g w (d_id data) (newIssueUpdate plan validLabelIds)) (\<lambda>_.
          bind (createRequestedSubtasks env g w (d_id data) (subtasks plan)) (\<lambda>_.
          bind (case d_creator data of
                  Some creatorId \<Rightarrow> subscribeToIssue env g w (d_id data) creatorId
                | None \<Rightarrow> ret ()) (\<lambda>_.
            addReaction env g w (d_id data) CHECK_MARK)))))"

definition handleNewIssue :: "Env \<Rightarrow> globals \<Rightarrow> world \<Rightarrow> IssueData \<Rightarrow> unit eff" where
  "handleNewIssue env g w data =
     bind (getTeamKnowledgeBase w) (\<lambda>teamKb.
     bind (getLabelKnowledgeBase w) (\<lambda>labelKb.
     bind (getTriagePlan env g w (newIssueContent data)) (\<lambda>plan.
       newIssueActions env g w data plan)))"

definition conversationHistory :: "comment list \<Rightarrow> string" where
  "conversationHistory comments =
     join NL2 (map (\<lambda>c. (case truthy_str (c_user_name c) of Some n \<Rightarrow> n | None \<Rightarrow> ''User'')
                        @ '': '' @ c_body c) comments)"

definition retriageContent :: "issue \<Rightarrow> comment list \<Rightarrow> string" where
  "retriageContent issue comments =
     ''The user has replied to our clarification request. Follow the SOP. Here is the full context.''
     @ NL2 @ ''Original Title: '' @ i_title issue
     @ NL2 @ ''Original Description: '' @ or_empty (i_description issue)
     @ NL2 @ ''Conversation History:'' @ [CHR 0x0A] @ conversationHistory comments"

text \<open>
  \<^verbatim>\<open>finalLabelIds\<close>: the issue's labels without the awaiting-info label, followed by
  the validated labels of the plan.
\<close>

definition finalLabelIds :: "string \<Rightarrow> string list \<Rightarrow> string list \<Rightarrow> string list" where
  "finalLabelIds marker current validLabelIds =
     filter (\<lambda>i. i \<noteq> marker) current @ validLabelIds"

text \<open>\<^verbatim>\<open>rewrite?.title\<close> and \<^verbatim>\<open>rewrite?.description\<close>\<close>

fun rewrite_title :: "rewrite_fields option \<Rightarrow> string option" where
  "rewrite_title None = None"
| "rewrite_title (Some r) = rw_title r"

fun rewrite_description :: "rewrite_fields option \<Rightarrow> string option" where
  "rewrite_description None = None"
| "rewrite_description (Some r) = rw_description r"

text \<open>The update sent on the completion branch of a re-triage.\<close>

definition retriageUpdate :: "TriagePlan \<Rightarrow> string list \<Rightarrow> IssueUpdatePayload" where
  "retriageUpdate plan final =
     \<lparr>upd_title = rewrite_title (rewrite plan),
      upd_description = rewrite_description (rewrite plan),
      upd_teamId = teamId plan,
      upd_labelIds = Some final, upd_estimate = estimate plan,
      upd_priority = map_option priorityMap (priority plan),
      upd_assigneeId = assigneeId plan\<rparr>"

text \<open>
  The action dispatch of \<^verbatim>\<open>handleComment\<close>, the \<^verbatim>\<open>if\<close> statement that follows the
  plan request, for the fetched issue \<open>issue\<close> and the configured label \<open>marker\<close>.
\<close>

definition retriageActions ::
  "Env \<Rightarrow> globals \<Rightarrow> world \<Rightarrow> CommentData \<Rightarrow> issue \<Rightarrow> string \<Rightarrow> TriagePlan \<Rightarrow> unit eff" where
  "retriageActions env g w data issue marker plan =
     (case clarification plan of
        Some c \<Rightarrow> createComment env g w (d_issue_id data) c
      | None \<Rightarrow>
          bind (validateLabelIds w (or_nil (labelIds plan))) (\<lambda>validLabelIds.
          bind (updateIssue env g w (d_issue_id data)
                  (retriageUpdate plan
                     (finalLabelIds marker (i_labelIds issue) validLabelIds))) (\<lambda>_.
          bind (createRequestedSubtasks env g w (d_issue_id data) (subtasks plan)) (\<lambda>_.
            addReaction env g w (d_issue_id data) CHECK_MARK))))"

definition handleComment :: "Env \<Rightarrow> globals \<Rightarrow> world \<Rightarrow> CommentData \<Rightarrow> unit eff" where
  "handleComment env g w data =
     (if str_includes (d_body data) BOT_MARKER then ret ()
      else
        bind (getIssue env g w (d_issue_id data)) (\<lambda>issue.
          case truthy_str (AWAITING_INFO_LABEL_ID env) of
            None \<Rightarrow> ret ()
          | Some marker \<Rightarrow>
              if marker \<notin> set (i_labelIds issue) then ret ()
              else
                bind (getTeamKnowledgeBase w) (\<lambda>teamKb.
                bind (getLabelKnowledgeBase w) (\<lambda>labelKb.
                bind (getComments env g w (d_issue_id data)) (\<lambda>comments.
                bind (getTriagePlan env g w (retriageContent issue comments)) (\<lambda>plan.
                  retriageActions env g w data issue marker plan))))))"

text \<open>Whether a call is a request to the language model.\<close>

fun is_llm_request :: "call \<Rightarrow> bool" where
  "is_llm_request (LlmRequest _ _) = True"
| "is_llm_request _ = False"

section \<open>A concrete deployment\<close>

text \<open>
  The inputs of the end-to-end scenarios: a label knowledge base that holds the single
  label \<open>label-id-bug\<close>, a team knowledge base with one team, an environment with the
  awaiting-info label configured, and a tracker that answers every request with success.
\<close>

definition demo_env :: Env where
  "demo_env = \<lparr>AWAITING_INFO_LABEL_ID = Some ''label-await'', LINEAR_API_KEY = ''lin-key'',
               OPENAI_API_KEY = ''oai-key'', OPENAI_MODEL = []\<rparr>"

definition demo_globals :: globals where
  "demo_globals = \<lparr>openai = False, linearClient = False\<rparr>"

definition demo_label_kb :: json where
  "demo_label_kb = JObj [(''data'', JObj [(''issueLabels'', JObj [(''nodes'',
     JArr [JObj [(''id'', JStr ''label-id-bug''), (''name'', JStr ''Bug'')]])])])]"

definition demo_team_kb :: json where
  "demo_team_kb = JObj [(''team-id-1'', JObj [(''name'', JStr ''Frontend''),
     (''keywords'', JArr [JStr ''bug'']), (''domains'', JArr [JStr ''frontend''])])]"

definition demo_kv :: "json \<Rightarrow> string \<Rightarrow> json_text option" where
  "demo_kv labelKb k =
     (if k = ''team_rules.json'' then Some (Parses demo_team_kb)
      else if k = ''labels.json'' then Some (Parses labelKb)
      else None)"

definition demo_issue :: issue where
  "demo_issue = \<lparr>i_title = ''Login'', i_description = None,
                 i_labelIds = [''label-a'', ''label-await'']\<rparr>"

definition demo_comments :: "comment list" where
  "demo_comments = [\<lparr>c_user_name = Some ''Ann'', c_body = ''It is the login form''\<rparr>]"

text \<open>The world in which the language model answers every attempt with \<open>r\<close>.\<close>

definition demo_world :: "llm_reply \<Rightarrow> world" where
  "demo_world r = \<lparr>kv = demo_kv demo_label_kb, llm = (\<lambda>i. r),
     issue_reply = (\<lambda>i. Reply (Some demo_issue)),
     comments_reply = (\<lambda>i. Reply (Some demo_comments)),
     success = (\<lambda>c. Reply True)\<rparr>"

definition demo_issue_data :: IssueData where
  "demo_issue_data = \<lparr>d_id = ''issue-1'', d_title = ''Fix a UI bug on the login page'',
                       d_description = None, d_creator = Some ''user-1''\<rparr>"

definition demo_comment_data :: CommentData where
  "demo_comment_data = \<lparr>d_body = ''It is the login form'', d_issue_id = ''issue-1''\<rparr>"

text \<open>
  Scenario A: the model returns a complete plan with a rewrite, one label of the knowledge
  base and one invented label.
\<close>

definition scenarioA_reply :: json where
  "scenarioA_reply = JObj [(''needsClarification'', JBool False),
     (''rewrite'', JObj [(''title'', JStr ''Login page: fix the UI bug''),
                         (''description'', JStr ''Steps and expected result'')]),
     (''teamId'', JStr ''team-id-1''),
     (''labelIds'', JArr [JStr ''label-id-bug'', JStr ''label-id-fake'']),
     (''priority'', JStr ''High''), (''estimate'', JNum 3)]"

definition scenarioA_plan :: TriagePlan where
  "scenarioA_plan =
     \<lparr>rewrite = Some \<lparr>rw_title = Some ''Login page: fix the UI bug'',
                       rw_description = Some ''Steps and expected result''\<rparr>,
      priority = Some High, teamId = Some ''team-id-1'',
      labelIds = Some [''label-id-bug'', ''label-id-fake''], estimate = Some 3,
      assigneeId = None, subtasks = None, needsClarification = False,
      clarificationComment = None\<rparr>"

text \<open>Scenario B: the model asks for clarification.\<close>

definition scenarioB_reply :: json where
  "scenarioB_reply = JObj [(''needsClarification'', JBool True),
     (''clarificationComment'', JStr ''Can you clarify X?<!-- bot -->'')]"

definition scenarioB_plan :: TriagePlan where
  "scenarioB_plan =
     \<lparr>rewrite = None, priority = None, teamId = None, labelIds = None, estimate = None,
      assigneeId = None, subtasks = None, needsClarification = True,
      clarificationComment = Some ''Can you clarify X?<!-- bot -->''\<rparr>"

text \<open>A reply that asks for clarification without a comment, and names a team.\<close>

definition silent_reply :: json where
  "silent_reply = JObj [(''needsClarification'', JBool True), (''teamId'', JStr ''team-id-1''),
     (''estimate'', JNum 3)]"

definition silent_plan :: TriagePlan where
  "silent_plan =
     \<lparr>rewrite = None, priority = None, teamId = Some ''team-id-1'', labelIds = None,
      estimate = Some 3, assigneeId = None, subtasks = None, needsClarification = True,
      clarificationComment = None\<rparr>"

text \<open>
  Scenario D: a reply to a clarification request on an issue that carries the labels
  \<open>label-a\<close> and the awaiting-info label; the knowledge base holds \<open>label-b\<close> and
  \<open>label-c\<close>, and the model now returns a complete plan with both.
\<close>

definition two_label_kb :: json where
  "two_label_kb = JObj [(''data'', JObj [(''issueLabels'', JObj [(''nodes'',
     JArr [JObj [(''id'', JStr ''label-b''), (''name'', JStr ''Bug'')],
           JObj [(''id'', JStr ''label-c''), (''name'', JStr ''Frontend'')]])])])]"

definition scenarioD_reply :: json where
  "scenarioD_reply = JObj [(''needsClarification'', JBool False),
     (''rewrite'', JObj [(''title'', JStr ''Login form rejects valid passwords'')]),
     (''labelIds'', JArr [JStr ''label-b'', JStr ''label-c''])]"

definition scenarioD_plan :: TriagePlan where
  "scenarioD_plan =
     \<lparr>rewrite = Some \<lparr>rw_title = Some ''Login form rejects valid passwords'',
                       rw_description = None\<rparr>,
      priority = None, teamId = None, labelIds = Some [''label-b'', ''label-c''],
      estimate = None, assigneeId = None, subtasks = None, needsClarification = False,
      clarificationComment = None\<rparr>"

definition scenarioD_world :: world where
  "scenarioD_world =
     (demo_world (Content (Parses scenarioD_reply)))\<lparr>kv := demo_kv two_label_kb\<rparr>"

text \<open>
  A world in which the first two replies of the language model are not JSON and the third
  is the reply without a comment.
\<close>

definition late_world :: world where
  "late_world = (demo_world ApiError)\<lparr>llm :=
     (\<lambda>i. if i = 2 then Content (Parses silent_reply) else Content Unparseable)\<rparr>"

section \<open>Basic facts about sequencing\<close>

declare retryLoop.simps [simp del]

lemma bind_Inl [simp]: "bind (Inl e, t) f = (Inl e, t)"
  by (simp add: bind_def)

lemma bind_Inr [simp]: "bind (Inr x, t) f = (fst (f x), t @ snd (f x))"
  by (simp add: bind_def split: prod.splits)

lemma bind_ret [simp]: "bind (ret x) f = f x"
  by (simp add: ret_def)

lemma bind_throw [simp]: "bind (throw e) f = throw e"
  by (simp add: throw_def)

lemma bind_emit [simp]: "bind (emit c) f = (fst (f ()), c # snd (f ()))"
  by (simp add: emit_def)

lemma no_mutation_bind:
  assumes "filter is_mutation (snd m) = []"
    and "\<And>x. fst m = Inr x \<Longrightarrow> filter is_mutation (snd (f x)) = []"
  shows "filter is_mutation (snd (bind m f)) = []"
  using assms by (cases m; cases "fst m") auto

section \<open>Facts about the knowledge base\<close>

lemma kvRead_Parses: "kv w key = Some (Parses j) \<Longrightarrow> kvRead w key = (Inr j, [KvGet key])"
  by (simp add: kvRead_def ret_def)

lemma snd_kvRead: "snd (kvRead w key) = [KvGet key]"
  by (simp add: kvRead_def throw_def ret_def split: option.splits json_text.splits)

lemma kvRead_no_mutation: "filter is_mutation (snd (kvRead w k)) = []"
  by (simp add: snd_kvRead)

lemma has_id_iff: "has_id (id_set ls) i \<longleftrightarrow> (\<exists>l \<in> set ls. get_prop l ''id'' = Some (JStr i))"
  by (force simp: has_id_def id_set_def image_iff)

lemma snd_validateLabelIds: "snd (validateLabelIds w ids) = [KvGet LABELS_KEY]"
proof -
  obtain r where k: "kvRead w LABELS_KEY = (r, [KvGet LABELS_KEY])"
    by (metis snd_kvRead prod.collapse)
  show ?thesis
    unfolding validateLabelIds_def getLabelKnowledgeBase_def k
    by (cases r) (simp_all add: ret_def throw_def split: option.splits json.splits)
qed

section \<open>Facts about the tracker operations\<close>

lemma getLinearClient_cases:
  "getLinearClient env g = (Inr (), []) \<or> getLinearClient env g = (Inl LinearKeyNotSet, [])"
  by (simp add: getLinearClient_def ret_def throw_def)

lemma makeGraphQLRequest_ready:
  "getLinearClient env g = (Inr (), []) \<Longrightarrow>
   makeGraphQLRequest env g c r =
     (case r of Rejected \<Rightarrow> (Inl GraphQLRequestFailed, [c]) | Reply d \<Rightarrow> (Inr d, [c]))"
  by (simp add: makeGraphQLRequest_def throw_def ret_def split: reply.splits)

lemma getIssue_ready:
  "getLinearClient env g = (Inr (), []) \<Longrightarrow> issue_reply w i = Reply (Some iss) \<Longrightarrow>
   getIssue env g w i = (Inr iss, [GetIssue i])"
  by (simp add: getIssue_def makeGraphQLRequest_ready ret_def)

lemma getComments_ready:
  "getLinearClient env g = (Inr (), []) \<Longrightarrow> comments_reply w i = Reply (Some cs) \<Longrightarrow>
   getComments env g w i = (Inr cs, [GetComments i])"
  by (simp add: getComments_def makeGraphQLRequest_ready ret_def)

lemma getIssue_no_mutation: "filter is_mutation (snd (getIssue env g w i)) = []"
  using getLinearClient_cases [of env g]
  by (auto simp: getIssue_def makeGraphQLRequest_ready makeGraphQLRequest_def throw_def ret_def
      split: reply.splits option.splits)

lemma getComments_no_mutation: "filter is_mutation (snd (getComments env g w i)) = []"
  using getLinearClient_cases [of env g]
  by (auto simp: getComments_def makeGraphQLRequest_ready makeGraphQLRequest_def throw_def ret_def
      split: reply.splits option.splits)

lemma createComment_ready:
  "getLinearClient env g = (Inr (), []) \<Longrightarrow>
   createComment env g w i b =
     ((case success w (CreateComment i b) of
         Rejected \<Rightarrow> Inl GraphQLRequestFailed
       | Reply ok \<Rightarrow> if ok then Inr () else Inl (CreateCommentFailed i)),
      [CreateComment i b])"
  by (simp add: createComment_def makeGraphQLRequest_ready ret_def throw_def split: reply.splits)

lemma updateIssue_ready:
  "getLinearClient env g = (Inr (), []) \<Longrightarrow>
   updateIssue env g w i p =
     ((case success w (UpdateIssue i p) of
         Rejected \<Rightarrow> Inl GraphQLRequestFailed
       | Reply ok \<Rightarrow> if ok then Inr () else Inl (UpdateIssueFailed i)),
      [UpdateIssue i p])"
  by (simp add: updateIssue_def makeGraphQLRequest_ready ret_def throw_def split: reply.splits)

lemma subscribeToIssue_ready:
  "getLinearClient env g = (Inr (), []) \<Longrightarrow>
   subscribeToIssue env g w i u =
     ((case success w (Subscribe i u) of
         Rejected \<Rightarrow> Inl GraphQLRequestFailed
       | Reply ok \<Rightarrow> if ok then Inr () else Inl (SubscribeFailed u i)),
      [Subscribe i u])"
  by (simp add: subscribeToIssue_def makeGraphQLRequest_ready ret_def throw_def split: reply.splits)

lemma addReaction_ready:
  "getLinearClient env g = (Inr (), []) \<Longrightarrow>
   addReaction env g w i e =
     ((case success w (AddReaction i e) of
         Rejected \<Rightarrow> Inl GraphQLRequestFailed
       | Reply ok \<Rightarrow> if ok then Inr () else Inl (AddReactionFailed i)),
      [AddReaction i e])"
  by (simp add: addReaction_def makeGraphQLRequest_ready ret_def throw_def split: reply.splits)

lemma concat_singletons: "concat (map (\<lambda>t. [f t]) ts) = map f ts"
  by (induction ts) auto

lemma createMultipleSubtasks_ready:
  assumes "getLinearClient env g = (Inr (), [])"
  shows "snd (createMultipleSubtasks env g w i ts) = map (CreateSubtask i) ts"
    and "\<exists>r. fst (createMultipleSubtasks env g w i ts) = Inr r"
proof -
  have s: "\<And>t. snd (makeGraphQLRequest env g (CreateSubtask i t) (success w (CreateSubtask i t)))
              = [CreateSubtask i t]"
    using assms by (simp add: makeGraphQLRequest_ready split: reply.splits)
  show "snd (createMultipleSubtasks env g w i ts) = map (CreateSubtask i) ts"
    by (simp add: createMultipleSubtasks_def Let_def comp_def s concat_singletons)
  show "\<exists>r. fst (createMultipleSubtasks env g w i ts) = Inr r"
    by (simp add: createMultipleSubtasks_def Let_def)
qed

lemma createRequestedSubtasks_ready:
  assumes "getLinearClient env g = (Inr (), [])"
  shows "createRequestedSubtasks env g w i sts = (Inr (), map (CreateSubtask i) (or_nil sts))"
proof (cases sts)
  case None
  then show ?thesis by (simp add: createRequestedSubtasks_def ret_def)
next
  case (Some ts)
  obtain r where r: "fst (createMultipleSubtasks env g w i ts) = Inr r"
    using createMultipleSubtasks_ready(2) [OF assms] by blast
  have "createMultipleSubtasks env g w i ts = (Inr r, map (CreateSubtask i) ts)"
    using r createMultipleSubtasks_ready(1) [OF assms, of w i ts] by (simp add: prod_eq_iff)
  then show ?thesis using Some by (simp add: createRequestedSubtasks_def ret_def)
qed

section \<open>Facts about plan generation\<close>

lemma get_prop_append:
  "get_prop (JObj (kvs @ [(k, v)])) k' = (if k' = k then Some v else get_prop (JObj kvs) k')"
  by simp

lemma get_prop_absent: "k \<notin> fst ` set kvs \<Longrightarrow> get_prop (JObj kvs) k = None"
  by (simp add: map_of_eq_None_iff)

lemma retryLoop_closed:
  "retryLoop env w c 0 =
     (case attempt (llm w 0) of
        Some p \<Rightarrow> (Inr p, [LlmRequest (model_name env) c])
      | None \<Rightarrow>
     (case attempt (llm w 1) of
        Some p \<Rightarrow> (Inr p, [LlmRequest (model_name env) c, Sleep (RETRY_DELAY_MS * 1),
                          LlmRequest (model_name env) c])
      | None \<Rightarrow>
     (case attempt (llm w 2) of
        Some p \<Rightarrow> (Inr p, [LlmRequest (model_name env) c, Sleep (RETRY_DELAY_MS * 1),
                          LlmRequest (model_name env) c, Sleep (RETRY_DELAY_MS * 2),
                          LlmRequest (model_name env) c])
      | None \<Rightarrow> (Inl PlanGenerationFailed,
                         [LlmRequest (model_name env) c, Sleep (RETRY_DELAY_MS * 1),
                          LlmRequest (model_name env) c, Sleep (RETRY_DELAY_MS * 2),
                          LlmRequest (model_name env) c]))))"
proof -
  have l2: "retryLoop env w c 2 =
     (case attempt (llm w 2) of
        Some p \<Rightarrow> (Inr p, [LlmRequest (model_name env) c])
      | None \<Rightarrow> (Inl PlanGenerationFailed, [LlmRequest (model_name env) c]))"
    by (subst retryLoop.simps) (simp add: MAX_RETRIES_def ret_def throw_def split: option.splits)
  have l1: "retryLoop env w c 1 =
     (case attempt (llm w 1) of
        Some p \<Rightarrow> (Inr p, [LlmRequest (model_name env) c])
      | None \<Rightarrow> (fst (retryLoop env w c 2),
                  LlmRequest (model_name env) c # Sleep (RETRY_DELAY_MS * 2) # snd (retryLoop env w c 2)))"
    by (subst retryLoop.simps)
      (simp add: MAX_RETRIES_def ret_def throw_def eval_nat_numeral split: option.splits)
  have l0: "retryLoop env w c 0 =
     (case attempt (llm w 0) of
        Some p \<Rightarrow> (Inr p, [LlmRequest (model_name env) c])
      | None \<Rightarrow> (fst (retryLoop env w c 1),
                  LlmRequest (model_name env) c # Sleep (RETRY_DELAY_MS * 1) # snd (retryLoop env w c 1)))"
    by (subst retryLoop.simps) (simp add: MAX_RETRIES_def ret_def throw_def split: option.splits)
  show ?thesis
    unfolding l0 l1 l2 by (simp split: option.splits)
qed

lemma retryLoop_accepts:
  "i < MAX_RETRIES \<Longrightarrow> attempt (llm w i) = Some plan \<Longrightarrow>
   retryLoop env w c i = (Inr plan, [LlmRequest (model_name env) c])"
  by (subst retryLoop.simps) (simp add: ret_def)

lemma getTriagePlan_ready:
  "getOpenAIClient env g = (Inr (), []) \<Longrightarrow> getTriagePlan env g w c = retryLoop env w c 0"
  by (simp add: getTriagePlan_def)

lemma getTriagePlan_accepts_at:
  assumes "getOpenAIClient env g = (Inr (), [])" and "i < MAX_RETRIES"
    and "\<forall>j<i. attempt (llm w j) = None" and "attempt (llm w i) = Some plan"
  shows "getTriagePlan env g w c =
           (Inr plan,
            concat (map (\<lambda>j. [LlmRequest (model_name env) c, Sleep (RETRY_DELAY_MS * (j + 1))])
                      [0..<i])
            @ [LlmRequest (model_name env) c])"
proof -
  have "i = 0 \<or> i = 1 \<or> i = 2" using assms(2) by (auto simp: MAX_RETRIES_def)
  then show ?thesis
  proof (elim disjE)
    assume "i = 0"
    then show ?thesis using assms(4)
      by (simp add: getTriagePlan_ready [OF assms(1)] retryLoop_closed)
  next
    assume i: "i = 1"
    then have "attempt (llm w 0) = None" using assms(3) by simp
    then show ?thesis using assms(4) i
      by (simp add: getTriagePlan_ready [OF assms(1)] retryLoop_closed)
  next
    assume i: "i = 2"
    then have "attempt (llm w 0) = None" "attempt (llm w 1) = None" using assms(3) by simp_all
    moreover have "[0..<2] = [0, Suc 0]" by (simp add: upt_rec numeral_2_eq_2)
    ultimately show ?thesis using assms(4) i
      by (simp add: getTriagePlan_ready [OF assms(1)] retryLoop_closed)
  qed
qed

lemma getTriagePlan_requests_at:
  assumes "getOpenAIClient env g = (Inr (), [])" and "i < MAX_RETRIES"
    and "\<forall>j<i. attempt (llm w j) = None" and "attempt (llm w i) = Some plan"
  shows "length (filter is_llm_request (snd (getTriagePlan env g w c))) = i + 1"
proof -
  have "i = 0 \<or> i = 1 \<or> i = 2" using assms(2) by (auto simp: MAX_RETRIES_def)
  then show ?thesis
  proof (elim disjE)
    assume "i = 0"
    then show ?thesis using assms(4)
      by (simp add: getTriagePlan_ready [OF assms(1)] retryLoop_closed)
  next
    assume i: "i = 1"
    then have "attempt (llm w 0) = None" using assms(3) by simp
    then show ?thesis using assms(4) i
      by (simp add: getTriagePlan_ready [OF assms(1)] retryLoop_closed)
  next
    assume i: "i = 2"
    then have "attempt (llm w 0) = None" "attempt (llm w 1) = None" using assms(3) by simp_all
    then show ?thesis using assms(4) i
      by (simp add: getTriagePlan_ready [OF assms(1)] retryLoop_closed)
  qed
qed

lemma getOpenAIClient_cases:
  "getOpenAIClient env g = (Inr (), []) \<or> getOpenAIClient env g = (Inl OpenAIKeyNotSet, [])"
  by (simp add: getOpenAIClient_def ret_def throw_def)

lemma getTriagePlan_no_client:
  "getOpenAIClient env g = (Inl OpenAIKeyNotSet, []) \<Longrightarrow>
   getTriagePlan env g w c = (Inl OpenAIKeyNotSet, [])"
  by (simp add: getTriagePlan_def)

lemma getTriagePlan_attempts:
  "length (filter is_llm_request (snd (getTriagePlan env g w c))) \<le> MAX_RETRIES"
  using getOpenAIClient_cases [of env g]
  by (auto simp: getTriagePlan_ready getTriagePlan_no_client retryLoop_closed MAX_RETRIES_def
      split: option.splits)

lemma getTriagePlan_calls:
  "x \<in> set (snd (getTriagePlan env g w c)) \<Longrightarrow>
   x = LlmRequest (model_name env) c \<or> (\<exists>n. x = Sleep n)"
  using getOpenAIClient_cases [of env g]
  by (auto simp: getTriagePlan_ready getTriagePlan_no_client retryLoop_closed
      split: option.splits)

lemma all_attempts_fail:
  "(\<forall>i<MAX_RETRIES. attempt (llm w i) = None) \<longleftrightarrow>
   attempt (llm w 0) = None \<and> attempt (llm w 1) = None \<and> attempt (llm w 2) = None"
proof -
  have "{..<MAX_RETRIES} = {0, 1, 2}" by (auto simp: MAX_RETRIES_def)
  then have "(\<forall>i<MAX_RETRIES. attempt (llm w i) = None) \<longleftrightarrow> (\<forall>i\<in>{0,1,2}. attempt (llm w i) = None)"
    by (metis lessThan_iff)
  then show ?thesis by simp
qed

lemma getTriagePlan_exhausted:
  assumes "\<forall>i<MAX_RETRIES. attempt (llm w i) = None"
  shows "\<exists>e. fst (getTriagePlan env g w c) = Inl e"
  using getOpenAIClient_cases [of env g] assms
  by (auto simp: getTriagePlan_ready getTriagePlan_no_client retryLoop_closed all_attempts_fail)

lemma getTriagePlan_no_mutation:
  "getTriagePlan env g w c = (r, tp) \<Longrightarrow> filter is_mutation tp = []"
proof -
  assume a: "getTriagePlan env g w c = (r, tp)"
  have "\<forall>x \<in> set tp. \<not> is_mutation x"
  proof
    fix x assume "x \<in> set tp"
    then have "x \<in> set (snd (getTriagePlan env g w c))" using a by simp
    from getTriagePlan_calls [OF this] show "\<not> is_mutation x" by auto
  qed
  then show ?thesis by (simp add: filter_empty_conv)
qed

lemma no_mutation_plan_error:
  assumes "\<exists>e. fst (getTriagePlan env g w c) = Inl e"
  shows "filter is_mutation (snd (bind (getTriagePlan env g w c) f)) = []"
proof -
  obtain e tp where p: "getTriagePlan env g w c = (Inl e, tp)"
    using assms by (metis prod.collapse)
  show ?thesis using getTriagePlan_no_mutation [OF p] by (simp add: p)
qed

section \<open>Facts about the handlers\<close>

lemma handleNewIssue_with_plan:
  assumes "kv w KB_KEY = Some (Parses tk)" and "kv w LABELS_KEY = Some (Parses lk)"
    and "getTriagePlan env g w (newIssueContent data) = (Inr plan, tp)"
  shows "handleNewIssue env g w data =
           (fst (newIssueActions env g w data plan),
            KvGet KB_KEY # KvGet LABELS_KEY # tp @ snd (newIssueActions env g w data plan))"
  using assms
  by (simp add: handleNewIssue_def getTeamKnowledgeBase_def getLabelKnowledgeBase_def
      kvRead_Parses)

lemma handleNewIssue_plan_error:
  assumes "fst (getTriagePlan env g w (newIssueContent data)) = Inl e"
  shows "(\<exists>e'. fst (handleNewIssue env g w data) = Inl e')
       \<and> filter is_mutation (snd (handleNewIssue env g w data)) = []"
proof -
  obtain r1 where k1: "kvRead w KB_KEY = (r1, [KvGet KB_KEY])"
    by (metis snd_kvRead prod.collapse)
  obtain r2 where k2: "kvRead w LABELS_KEY = (r2, [KvGet LABELS_KEY])"
    by (metis snd_kvRead prod.collapse)
  obtain tp where p: "getTriagePlan env g w (newIssueContent data) = (Inl e, tp)"
    using assms by (metis prod.collapse)
  have tp: "filter is_mutation tp = []" using getTriagePlan_no_mutation [OF p] .
  show ?thesis
    unfolding handleNewIssue_def getTeamKnowledgeBase_def getLabelKnowledgeBase_def k1 k2 p
    using tp by (cases r1; cases r2) auto
qed

lemma handleNewIssue_plan_error_kb:
  assumes "kv w KB_KEY = Some (Parses tk)" and "kv w LABELS_KEY = Some (Parses lk)"
    and "fst (getTriagePlan env g w (newIssueContent data)) = Inl e"
  shows "fst (handleNewIssue env g w data) = Inl e"
  using assms
  by (cases "getTriagePlan env g w (newIssueContent data)")
     (simp add: handleNewIssue_def getTeamKnowledgeBase_def getLabelKnowledgeBase_def
      kvRead_Parses)

lemma newIssueActions_clarify:
  assumes "getLinearClient env g = (Inr (), [])" and "clarification plan = Some c"
  shows "snd (newIssueActions env g w data plan) =
           CreateComment (d_id data) c #
           (if success w (CreateComment (d_id data) c) = Reply True
            then (case truthy_str (AWAITING_INFO_LABEL_ID env) of
                    Some m \<Rightarrow> [UpdateIssue (d_id data) (markerOnly m)]
                  | None \<Rightarrow> [])
            else [])"
  using assms
  by (simp add: newIssueActions_def createComment_ready updateIssue_ready ret_def
      split: reply.splits option.splits)

lemma newIssueActions_complete:
  assumes "getLinearClient env g = (Inr (), [])" and "clarification plan = None"
    and "fst (validateLabelIds w (or_nil (labelIds plan))) = Inr valid"
    and "success w (UpdateIssue (d_id data) (newIssueUpdate plan valid)) = Reply True"
  shows "newIssueActions env g w data plan =
          (case d_creator data of
             Some u \<Rightarrow>
               (if success w (Subscribe (d_id data) u) = Reply True
                then fst (addReaction env g w (d_id data) CHECK_MARK)
                else fst (subscribeToIssue env g w (d_id data) u))
           | None \<Rightarrow> fst (addReaction env g w (d_id data) CHECK_MARK),
           KvGet LABELS_KEY # UpdateIssue (d_id data) (newIssueUpdate plan valid) #
           map (CreateSubtask (d_id data)) (or_nil (subtasks plan)) @
           (case d_creator data of
              Some u \<Rightarrow> Subscribe (d_id data) u #
                 (if success w (Subscribe (d_id data) u) = Reply True
                  then [AddReaction (d_id data) CHECK_MARK] else [])
            | None \<Rightarrow> [AddReaction (d_id data) CHECK_MARK]))"
proof -
  have v: "validateLabelIds w (or_nil (labelIds plan)) = (Inr valid, [KvGet LABELS_KEY])"
    using assms(3) snd_validateLabelIds [of w "or_nil (labelIds plan)"] by (simp add: prod_eq_iff)
  show ?thesis
    unfolding newIssueActions_def
    using assms(2,4)
    by (simp add: v updateIssue_ready [OF assms(1)] createRequestedSubtasks_ready [OF assms(1)]
        subscribeToIssue_ready [OF assms(1)] addReaction_ready [OF assms(1)] ret_def
        split: option.splits reply.splits)
qed

lemma handleComment_plan_error:
  assumes "\<forall>i<MAX_RETRIES. attempt (llm w i) = None"
  shows "filter is_mutation (snd (handleComment env g w data)) = []"
proof (cases "str_includes (d_body data) BOT_MARKER")
  case True
  then show ?thesis by (simp add: handleComment_def ret_def)
next
  case False
  have "filter is_mutation (snd (bind (getIssue env g w (d_issue_id data)) (\<lambda>issue.
          case truthy_str (AWAITING_INFO_LABEL_ID env) of
            None \<Rightarrow> ret ()
          | Some marker \<Rightarrow>
              if marker \<notin> set (i_labelIds issue) then ret ()
              else
                bind (getTeamKnowledgeBase w) (\<lambda>teamKb.
                bind (getLabelKnowledgeBase w) (\<lambda>labelKb.
                bind (getComments env g w (d_issue_id data)) (\<lambda>comments.
                bind (getTriagePlan env g w (retriageContent issue comments)) (\<lambda>plan.
                  retriageActions env g w data issue marker plan))))))) = []"
  proof (rule no_mutation_bind [OF getIssue_no_mutation])
    fix iss
    show "filter is_mutation (snd (case truthy_str (AWAITING_INFO_LABEL_ID env) of
            None \<Rightarrow> ret ()
          | Some marker \<Rightarrow>
              if marker \<notin> set (i_labelIds iss) then ret ()
              else
                bind (getTeamKnowledgeBase w) (\<lambda>teamKb.
                bind (getLabelKnowledgeBase w) (\<lambda>labelKb.
                bind (getComments env g w (d_issue_id data)) (\<lambda>comments.
                bind (getTriagePlan env g w (retriageContent iss comments)) (\<lambda>plan.
                  retriageActions env g w data iss marker plan)))))) = []"
    proof (cases "truthy_str (AWAITING_INFO_LABEL_ID env)")
      case None
      then show ?thesis by (simp add: ret_def)
    next
      case (Some m)
      have "filter is_mutation (snd (
                bind (getTeamKnowledgeBase w) (\<lambda>teamKb.
                bind (getLabelKnowledgeBase w) (\<lambda>labelKb.
                bind (getComments env g w (d_issue_id data)) (\<lambda>comments.
                bind (getTriagePlan env g w (retriageContent iss comments)) (\<lambda>plan.
                  retriageActions env g w data iss m plan)))))) = []"
        unfolding getTeamKnowledgeBase_def getLabelKnowledgeBase_def
        by (intro no_mutation_bind kvRead_no_mutation getComments_no_mutation
            no_mutation_plan_error getTriagePlan_exhausted [OF assms])
      then show ?thesis using Some by (simp add: ret_def)
    qed
  qed
  then show ?thesis using False by (simp add: handleComment_def)
qed

lemma handleComment_with_plan:
  assumes "\<not> str_includes (d_body data) BOT_MARKER"
    and "getLinearClient env g = (Inr (), [])"
    and "issue_reply w (d_issue_id data) = Reply (Some iss)"
    and "truthy_str (AWAITING_INFO_LABEL_ID env) = Some m"
    and "m \<in> set (i_labelIds iss)"
    and "kv w KB_KEY = Some (Parses tk)" and "kv w LABELS_KEY = Some (Parses lk)"
    and "comments_reply w (d_issue_id data) = Reply (Some cs)"
    and "getTriagePlan env g w (retriageContent iss cs) = (Inr plan, tp)"
  shows "handleComment env g w data =
           (fst (retriageActions env g w data iss m plan),
            GetIssue (d_issue_id data) # KvGet KB_KEY # KvGet LABELS_KEY #
            GetComments (d_issue_id data) # tp @ snd (retriageActions env g w data iss m plan))"
  using assms(1,4,5)
  by (simp add: handleComment_def getIssue_ready [OF assms(2,3)]
      getComments_ready [OF assms(2,8)] getTeamKnowledgeBase_def getLabelKnowledgeBase_def
      kvRead_Parses [OF assms(6)] kvRead_Parses [OF assms(7)] assms(9))

lemma retriageActions_complete:
  assumes "getLinearClient env g = (Inr (), [])" and "clarification plan = None"
    and "fst (validateLabelIds w (or_nil (labelIds plan))) = Inr valid"
  shows "snd (retriageActions env g w data iss m plan) =
           KvGet LABELS_KEY #
           UpdateIssue (d_issue_id data)
             (retriageUpdate plan (finalLabelIds m (i_labelIds iss) valid)) #
           (if success w (UpdateIssue (d_issue_id data)
                  (retriageUpdate plan (finalLabelIds m (i_labelIds iss) valid))) = Reply True
            then map (CreateSubtask (d_issue_id data)) (or_nil (subtasks plan)) @
                 [AddReaction (d_issue_id data) CHECK_MARK]
            else [])"
proof -
  have v: "validateLabelIds w (or_nil (labelIds plan)) = (Inr valid, [KvGet LABELS_KEY])"
    using assms(3) snd_validateLabelIds [of w "or_nil (labelIds plan)"] by (simp add: prod_eq_iff)
  show ?thesis
    unfolding retriageActions_def
    using assms(2)
    by (simp add: v updateIssue_ready [OF assms(1)] createRequestedSubtasks_ready [OF assms(1)]
        addReaction_ready [OF assms(1)] split: reply.splits)
qed

lemma set_finalLabelIds:
  "set (finalLabelIds m current valid) = (set current - {m}) \<union> set valid"
  by (auto simp: finalLabelIds_def)

section \<open>Facts about the concrete deployment\<close>

lemma demo_kv_labels: "kv (demo_world r) LABELS_KEY = Some (Parses demo_label_kb)"
  by (simp add: demo_world_def demo_kv_def LABELS_KEY_def)

lemma demo_kv_team: "kv (demo_world r) KB_KEY = Some (Parses demo_team_kb)"
  by (simp add: demo_world_def demo_kv_def KB_KEY_def)

lemma demo_nodes: "kb_nodes demo_label_kb =
   Some (JArr [JObj [(''id'', JStr ''label-id-bug''), (''name'', JStr ''Bug'')]])"
  by (simp add: kb_nodes_def demo_label_kb_def)

lemma demo_client: "getLinearClient demo_env demo_globals = (Inr (), [])"
  by (simp add: getLinearClient_def demo_env_def demo_globals_def ret_def)

lemma demo_openai: "getOpenAIClient demo_env demo_globals = (Inr (), [])"
  by (simp add: getOpenAIClient_def demo_env_def demo_globals_def ret_def)

lemma demo_model: "model_name demo_env = ''gpt-4o-mini''"
  by (simp add: model_name_def demo_env_def)

lemma demo_llm: "llm (demo_world r) i = r"
  by (simp add: demo_world_def)

lemma demo_success: "success (demo_world r) c = Reply True"
  by (simp add: demo_world_def)

lemma demo_marker: "truthy_str (AWAITING_INFO_LABEL_ID demo_env) = Some ''label-await''"
  by (simp add: demo_env_def)

lemma demo_data_fields:
  "d_id demo_issue_data = ''issue-1''" "d_creator demo_issue_data = Some ''user-1''"
  by (simp_all add: demo_issue_data_def)

lemma demo_getTriagePlan:
  "attempt r = Some plan \<Longrightarrow>
   getTriagePlan demo_env demo_globals (demo_world r) c = (Inr plan, [LlmRequest ''gpt-4o-mini'' c])"
  by (simp add: getTriagePlan_ready [OF demo_openai] retryLoop_accepts MAX_RETRIES_def
      demo_llm demo_model)

lemma demo_validate:
  "validateLabelIds (demo_world r) ids =
     (Inr (filter (\<lambda>i. i = ''label-id-bug'') ids), [KvGet LABELS_KEY])"
proof -
  have "has_id (id_set [JObj [(''id'', JStr ''label-id-bug''), (''name'', JStr ''Bug'')]])
          = (\<lambda>i. i = ''label-id-bug'')"
    by (auto simp: has_id_def id_set_def fun_eq_iff)
  then show ?thesis
    by (simp add: validateLabelIds_def getLabelKnowledgeBase_def
        kvRead_Parses [OF demo_kv_labels] demo_nodes ret_def)
qed

lemma attempt_scenarioA: "attempt (Content (Parses scenarioA_reply)) = Some scenarioA_plan"
  by (simp add: scenarioA_reply_def scenarioA_plan_def)

lemma attempt_scenarioB: "attempt (Content (Parses scenarioB_reply)) = Some scenarioB_plan"
  by (simp add: scenarioB_reply_def scenarioB_plan_def)

lemma attempt_silent: "attempt (Content (Parses silent_reply)) = Some silent_plan"
  by (simp add: silent_reply_def silent_plan_def)

lemma clarification_scenarioA: "clarification scenarioA_plan = None"
  by (simp add: clarification_def scenarioA_plan_def)

lemma validate_scenarioA:
  "fst (validateLabelIds (demo_world r) (or_nil (labelIds scenarioA_plan))) = Inr [''label-id-bug'']"
  by (simp add: demo_validate scenarioA_plan_def)

lemma late_llm:
  "attempt (llm late_world 0) = None" "attempt (llm late_world 1) = None"
  "attempt (llm late_world 2) = Some silent_plan"
    by (simp_all add: late_world_def silent_reply_def silent_plan_def)

lemma scenarioD_kv_team: "kv scenarioD_world KB_KEY = Some (Parses demo_team_kb)"
  by (simp add: scenarioD_world_def demo_kv_def KB_KEY_def)

lemma scenarioD_kv_labels: "kv scenarioD_world LABELS_KEY = Some (Parses two_label_kb)"
  by (simp add: scenarioD_world_def demo_kv_def LABELS_KEY_def)

lemma scenarioD_replies:
  "issue_reply scenarioD_world i = Reply (Some demo_issue)"
  "comments_reply scenarioD_world i = Reply (Some demo_comments)"
  "llm scenarioD_world n = Content (Parses scenarioD_reply)"
  by (simp_all add: scenarioD_world_def demo_world_def)

lemma attempt_scenarioD: "attempt (Content (Parses scenarioD_reply)) = Some scenarioD_plan"
  by (simp add: scenarioD_reply_def scenarioD_plan_def)

lemma scenarioD_getTriagePlan:
  "getTriagePlan demo_env demo_globals scenarioD_world c
     = (Inr scenarioD_plan, [LlmRequest ''gpt-4o-mini'' c])"
proof -
  have a: "attempt (llm scenarioD_world 0) = Some scenarioD_plan"
    by (simp only: scenarioD_replies attempt_scenarioD)
  show ?thesis
    by (simp add: getTriagePlan_ready [OF demo_openai] retryLoop_accepts [OF _ a]
        MAX_RETRIES_def demo_model)
qed

lemma scenarioD_validate:
  "fst (validateLabelIds scenarioD_world (or_nil (labelIds scenarioD_plan)))
     = Inr [''label-b'', ''label-c'']"
  by (simp add: validateLabelIds_def getLabelKnowledgeBase_def
      kvRead_Parses [OF scenarioD_kv_labels] two_label_kb_def kb_nodes_def has_id_def id_set_def
      ret_def scenarioD_plan_def)

section \<open>Clarification plans on the new-issue path\<close>

text \<open>
  Claim C1, as the code has it. The handler takes the clarification branch when
  \<open>needsClarification\<close> is true and the clarification comment is a non-empty string.
  For every such plan processed on the new-issue path, with the tracker client available,
  the writes issued to the tracker are: one comment creation with that comment and, when
  the comment creation is answered with success and an awaiting-info label is configured,
  one issue update that carries the one-element label list and no title, description,
  team, estimate, priority or assignee. Nothing else is written.
\<close>

theorem clarification_plan_actions:
  assumes "kv w KB_KEY = Some (Parses tk)" and "kv w LABELS_KEY = Some (Parses lk)"
    and "getTriagePlan env g w (newIssueContent data) = (Inr plan, tp)"
    and "needsClarification plan"
    and "truthy_str (clarificationComment plan) = Some c"
    and "getLinearClient env g = (Inr (), [])"
  shows "filter is_mutation (snd (handleNewIssue env g w data)) =
           CreateComment (d_id data) c #
           (if success w (CreateComment (d_id data) c) = Reply True
            then (case truthy_str (AWAITING_INFO_LABEL_ID env) of
                    Some m \<Rightarrow> [UpdateIssue (d_id data) (markerOnly m)]
                  | None \<Rightarrow> [])
            else [])
       \<and> upd_teamId (markerOnly m) = None \<and> upd_estimate (markerOnly m) = None
       \<and> upd_priority (markerOnly m) = None \<and> upd_assigneeId (markerOnly m) = None
       \<and> upd_title (markerOnly m) = None \<and> upd_description (markerOnly m) = None
       \<and> upd_labelIds (markerOnly m) = Some [m]"
proof -
  have c: "clarification plan = Some c"
    using assms(4,5) by (simp add: clarification_def)
  have tp: "filter is_mutation tp = []"
    using getTriagePlan_no_mutation [OF assms(3)] .
  have "filter is_mutation (snd (handleNewIssue env g w data)) =
           filter is_mutation (snd (newIssueActions env g w data plan))"
    by (simp add: handleNewIssue_with_plan [OF assms(1,2,3)] tp)
  also have "\<dots> = CreateComment (d_id data) c #
           (if success w (CreateComment (d_id data) c) = Reply True
            then (case truthy_str (AWAITING_INFO_LABEL_ID env) of
                    Some m \<Rightarrow> [UpdateIssue (d_id data) (markerOnly m)]
                  | None \<Rightarrow> [])
            else [])"
    unfolding newIssueActions_clarify [OF assms(6) c]
    by (cases "truthy_str (AWAITING_INFO_LABEL_ID env)") (simp_all cong: if_cong)
  finally show ?thesis by (simp add: markerOnly_def)
qed

text \<open>
  The theorem at scenario B: one comment with the exact body, then the awaiting-info label.
\<close>

theorem clarification_plan_actions_witness:
  "kv (demo_world (Content (Parses scenarioB_reply))) KB_KEY = Some (Parses demo_team_kb)
   \<and> kv (demo_world (Content (Parses scenarioB_reply))) LABELS_KEY = Some (Parses demo_label_kb)
   \<and> getTriagePlan demo_env demo_globals (demo_world (Content (Parses scenarioB_reply)))
        (newIssueContent demo_issue_data)
      = (Inr scenarioB_plan, [LlmRequest ''gpt-4o-mini'' (newIssueContent demo_issue_data)])
   \<and> needsClarification scenarioB_plan
   \<and> truthy_str (clarificationComment scenarioB_plan) = Some ''Can you clarify X?<!-- bot -->''
   \<and> getLinearClient demo_env demo_globals = (Inr (), [])
   \<and> filter is_mutation (snd (handleNewIssue demo_env demo_globals
        (demo_world (Content (Parses scenarioB_reply))) demo_issue_data))
      = [CreateComment ''issue-1'' ''Can you clarify X?<!-- bot -->'',
         UpdateIssue ''issue-1'' (markerOnly ''label-await'')]"
proof -
  let ?w = "demo_world (Content (Parses scenarioB_reply))"
  have p: "getTriagePlan demo_env demo_globals ?w (newIssueContent demo_issue_data)
      = (Inr scenarioB_plan, [LlmRequest ''gpt-4o-mini'' (newIssueContent demo_issue_data)])"
    by (rule demo_getTriagePlan [OF attempt_scenarioB])
  have n: "needsClarification scenarioB_plan" by (simp add: scenarioB_plan_def)
  have c: "truthy_str (clarificationComment scenarioB_plan) = Some ''Can you clarify X?<!-- bot -->''"
    by (simp add: scenarioB_plan_def)
  have "filter is_mutation (snd (handleNewIssue demo_env demo_globals ?w demo_issue_data))
      = [CreateComment ''issue-1'' ''Can you clarify X?<!-- bot -->'',
         UpdateIssue ''issue-1'' (markerOnly ''label-await'')]"
    using clarification_plan_actions [OF demo_kv_team demo_kv_labels p n c demo_client]
    by (simp add: demo_success demo_marker demo_data_fields)
  then show ?thesis
    using demo_kv_team demo_kv_labels p n c demo_client by simp
qed

text \<open>
  Claim C1 as stated fails for a plan with \<open>needsClarification = true\<close> and no
  clarification comment, which the schema accepts: the handler takes the other branch,
  creates no comment, and sends the team and the estimate of the plan, subscribes the
  creator and posts the completion reaction.
\<close>

theorem clarification_plan_actions_counterexample:
  "needsClarification silent_plan
   \<and> getTriagePlan demo_env demo_globals (demo_world (Content (Parses silent_reply)))
        (newIssueContent demo_issue_data)
      = (Inr silent_plan, [LlmRequest ''gpt-4o-mini'' (newIssueContent demo_issue_data)])
   \<and> filter is_mutation (snd (handleNewIssue demo_env demo_globals
        (demo_world (Content (Parses silent_reply))) demo_issue_data))
      = [UpdateIssue ''issue-1''
           \<lparr>upd_title = None, upd_description = None, upd_teamId = Some ''team-id-1'',
            upd_labelIds = Some [], upd_estimate = Some 3, upd_priority = None,
            upd_assigneeId = None\<rparr>,
         Subscribe ''issue-1'' ''user-1'',
         AddReaction ''issue-1'' CHECK_MARK]"
proof -
  let ?w = "demo_world (Content (Parses silent_reply))"
  have p: "getTriagePlan demo_env demo_globals ?w (newIssueContent demo_issue_data)
      = (Inr silent_plan, [LlmRequest ''gpt-4o-mini'' (newIssueContent demo_issue_data)])"
    by (rule demo_getTriagePlan [OF attempt_silent])
  have c: "clarification silent_plan = None"
    by (simp add: clarification_def silent_plan_def)
  have v: "fst (validateLabelIds ?w (or_nil (labelIds silent_plan))) = Inr []"
    by (simp add: demo_validate silent_plan_def)
  have st: "subtasks silent_plan = None" by (simp add: silent_plan_def)
  have "filter is_mutation (snd (handleNewIssue demo_env demo_globals ?w demo_issue_data))
      = [UpdateIssue ''issue-1'' (newIssueUpdate silent_plan []),
         Subscribe ''issue-1'' ''user-1'', AddReaction ''issue-1'' CHECK_MARK]"
    by (simp add: handleNewIssue_with_plan [OF demo_kv_team demo_kv_labels p]
        newIssueActions_complete [OF demo_client c v demo_success] demo_success
        demo_data_fields st)
  then show ?thesis using p by (simp add: newIssueUpdate_def silent_plan_def)
qed

section \<open>Completion on the new-issue path\<close>

text \<open>
  Claim C2 at scenario A with a rewrite in the plan: the update sent by the new-issue
  handler carries the team, the validated label, the estimate and the numeric priority,
  the creator is subscribed and the reaction is posted, but the title and the description
  of the rewrite are not part of the update.
\<close>

theorem handleNewIssue_drops_rewrite:
  "attempt (Content (Parses scenarioA_reply)) = Some scenarioA_plan
   \<and> rewrite_title (rewrite scenarioA_plan) = Some ''Login page: fix the UI bug''
   \<and> rewrite_description (rewrite scenarioA_plan) = Some ''Steps and expected result''
   \<and> handleNewIssue demo_env demo_globals (demo_world (Content (Parses scenarioA_reply)))
        demo_issue_data
      = (Inr (),
         [KvGet ''team_rules.json'', KvGet ''labels.json'',
          LlmRequest ''gpt-4o-mini'' (newIssueContent demo_issue_data),
          KvGet ''labels.json'',
          UpdateIssue ''issue-1''
            \<lparr>upd_title = None, upd_description = None, upd_teamId = Some ''team-id-1'',
             upd_labelIds = Some [''label-id-bug''], upd_estimate = Some 3,
             upd_priority = Some 2, upd_assigneeId = None\<rparr>,
          Subscribe ''issue-1'' ''user-1'',
          AddReaction ''issue-1'' CHECK_MARK])"
proof -
  let ?w = "demo_world (Content (Parses scenarioA_reply))"
  have p: "getTriagePlan demo_env demo_globals ?w (newIssueContent demo_issue_data)
      = (Inr scenarioA_plan, [LlmRequest ''gpt-4o-mini'' (newIssueContent demo_issue_data)])"
    by (rule demo_getTriagePlan [OF attempt_scenarioA])
  have st: "subtasks scenarioA_plan = None" by (simp add: scenarioA_plan_def)
  have u: "newIssueUpdate scenarioA_plan [''label-id-bug''] =
            \<lparr>upd_title = None, upd_description = None, upd_teamId = Some ''team-id-1'',
             upd_labelIds = Some [''label-id-bug''], upd_estimate = Some 3,
             upd_priority = Some 2, upd_assigneeId = None\<rparr>"
    by (simp add: newIssueUpdate_def scenarioA_plan_def)
  have "handleNewIssue demo_env demo_globals ?w demo_issue_data
      = (Inr (),
         [KvGet KB_KEY, KvGet LABELS_KEY,
          LlmRequest ''gpt-4o-mini'' (newIssueContent demo_issue_data),
          KvGet LABELS_KEY,
          UpdateIssue ''issue-1'' (newIssueUpdate scenarioA_plan [''label-id-bug'']),
          Subscribe ''issue-1'' ''user-1'',
          AddReaction ''issue-1'' CHECK_MARK])"
    by (simp add: handleNewIssue_with_plan [OF demo_kv_team demo_kv_labels p]
        newIssueActions_complete [OF demo_client clarification_scenarioA validate_scenarioA
          demo_success]
        addReaction_ready [OF demo_client] demo_success demo_data_fields st)
  then have h: "handleNewIssue demo_env demo_globals ?w demo_issue_data
      = (Inr (),
         [KvGet ''team_rules.json'', KvGet ''labels.json'',
          LlmRequest ''gpt-4o-mini'' (newIssueContent demo_issue_data),
          KvGet ''labels.json'',
          UpdateIssue ''issue-1''
            \<lparr>upd_title = None, upd_description = None, upd_teamId = Some ''team-id-1'',
             upd_labelIds = Some [''label-id-bug''], upd_estimate = Some 3,
             upd_priority = Some 2, upd_assigneeId = None\<rparr>,
          Subscribe ''issue-1'' ''user-1'',
          AddReaction ''issue-1'' CHECK_MARK])"
    unfolding u by (simp only: KB_KEY_def LABELS_KEY_def)
  have r1: "rewrite_title (rewrite scenarioA_plan) = Some ''Login page: fix the UI bug''"
    by (simp add: scenarioA_plan_def)
  have r2: "rewrite_description (rewrite scenarioA_plan) = Some ''Steps and expected result''"
    by (simp add: scenarioA_plan_def)
  show ?thesis
    by (intro conjI attempt_scenarioA r1 r2 h)
qed

section \<open>Relevance guard\<close>

text \<open>
  Claim C3, as the code has it. For a comment without the bot marker on an issue that does
  not carry the awaiting-info label, or when no such label is configured, the handler
  issues exactly one remote call, the read of the issue, and then discards the event: no
  knowledge-base read, no request to the language model and no write to the tracker.
\<close>

theorem handleComment_not_awaiting:
  assumes "\<not> str_includes (d_body data) BOT_MARKER"
    and "getLinearClient env g = (Inr (), [])"
    and "issue_reply w (d_issue_id data) = Reply (Some iss)"
    and "\<forall>m. truthy_str (AWAITING_INFO_LABEL_ID env) = Some m \<longrightarrow> m \<notin> set (i_labelIds iss)"
  shows "handleComment env g w data = (Inr (), [GetIssue (d_issue_id data)])"
  using assms
  by (simp add: handleComment_def getIssue_ready ret_def split: option.splits)

theorem handleComment_not_awaiting_witness:
  "\<not> str_includes (d_body \<lparr>d_body = ''It is the login form'', d_issue_id = ''issue-1''\<rparr>) BOT_MARKER
   \<and> getLinearClient (demo_env\<lparr>AWAITING_INFO_LABEL_ID := None\<rparr>) demo_globals = (Inr (), [])
   \<and> issue_reply (demo_world ApiError) ''issue-1'' = Reply (Some demo_issue)
   \<and> truthy_str (AWAITING_INFO_LABEL_ID (demo_env\<lparr>AWAITING_INFO_LABEL_ID := None\<rparr>)) = None
   \<and> handleComment (demo_env\<lparr>AWAITING_INFO_LABEL_ID := None\<rparr>) demo_globals (demo_world ApiError)
        \<lparr>d_body = ''It is the login form'', d_issue_id = ''issue-1''\<rparr>
      = (Inr (), [GetIssue ''issue-1''])"
proof -
  let ?d = "\<lparr>d_body = ''It is the login form'', d_issue_id = ''issue-1''\<rparr>"
  let ?env = "demo_env\<lparr>AWAITING_INFO_LABEL_ID := None\<rparr>"
  have a: "\<not> str_includes (d_body ?d) BOT_MARKER" by (simp add: BOT_MARKER_def)
  have b: "getLinearClient ?env demo_globals = (Inr (), [])"
    by (simp add: getLinearClient_def demo_env_def demo_globals_def ret_def)
  have c: "issue_reply (demo_world ApiError) (d_issue_id ?d) = Reply (Some demo_issue)"
    by (simp add: demo_world_def)
  have d: "\<forall>m. truthy_str (AWAITING_INFO_LABEL_ID ?env) = Some m \<longrightarrow> m \<notin> set (i_labelIds demo_issue)"
    by simp
  show ?thesis using a b c handleComment_not_awaiting [OF a b c d] by simp
qed

text \<open>
  Claim C3 as stated fails: the labels of the issue are fetched before the guard can be
  evaluated, so the handler performs one remote call.
\<close>

theorem handleComment_not_awaiting_counterexample:
  "AWAITING_INFO_LABEL_ID demo_env = Some ''label-await''
   \<and> issue_reply ((demo_world ApiError)\<lparr>issue_reply := \<lambda>i. Reply (Some
        \<lparr>i_title = ''Login'', i_description = None, i_labelIds = [''label-a'']\<rparr>)\<rparr>) ''issue-1''
      = Reply (Some \<lparr>i_title = ''Login'', i_description = None, i_labelIds = [''label-a'']\<rparr>)
   \<and> ''label-await'' \<notin> set [''label-a'']
   \<and> snd (handleComment demo_env demo_globals
        ((demo_world ApiError)\<lparr>issue_reply := \<lambda>i. Reply (Some
           \<lparr>i_title = ''Login'', i_description = None, i_labelIds = [''label-a'']\<rparr>)\<rparr>)
        \<lparr>d_body = ''It is the login form'', d_issue_id = ''issue-1''\<rparr>)
      = [GetIssue ''issue-1'']"
proof -
  have m: "AWAITING_INFO_LABEL_ID demo_env = Some ''label-await''"
    by (simp add: demo_env_def)
  show ?thesis
    by (simp add: handleComment_def getIssue_ready [OF demo_client] m ret_def BOT_MARKER_def)
qed

section \<open>Loop prevention\<close>

text \<open>
  Claim C4. When the body of the comment contains the bot marker token, the comment
  handler returns at once: it issues no call at all, whatever the environment, the state
  of the clients and the answers of the collaborators are, so nothing is done before the
  check.
\<close>

theorem handleComment_bot_marker:
  "str_includes (d_body data) BOT_MARKER \<Longrightarrow> handleComment env g w data = (Inr (), [])"
  by (simp add: handleComment_def ret_def)

theorem handleComment_bot_marker_witness:
  "str_includes (d_body \<lparr>d_body = ''Can you clarify X?<!-- bot -->'', d_issue_id = ''issue-1''\<rparr>) BOT_MARKER
   \<and> handleComment demo_env demo_globals (demo_world ApiError)
        \<lparr>d_body = ''Can you clarify X?<!-- bot -->'', d_issue_id = ''issue-1''\<rparr> = (Inr (), [])"
proof -
  have h: "str_includes (d_body \<lparr>d_body = ''Can you clarify X?<!-- bot -->'', d_issue_id = ''issue-1''\<rparr>) BOT_MARKER"
    by (simp add: BOT_MARKER_def)
  show ?thesis using h handleComment_bot_marker [OF h] by simp
qed

section \<open>Schema validation of the clarification comment\<close>

text \<open>
  Claim C5, as the code has it. The schema declares \<open>clarificationComment\<close> as an
  optional string and checks nothing else about it: the object with only
  \<open>needsClarification = true\<close> conforms, so does the one with any string as comment; for
  every object the verdict of the schema is the same whatever string the comment is, and
  the same when the comment is left out. A conforming output is returned as the plan by
  the attempt that received it, without a further request: by the first attempt, and more
  generally by attempt \<open>i + 1\<close> of the three when the \<open>i\<close> attempts before it failed,
  after exactly \<open>i + 1\<close> requests and the pauses between them.
\<close>

theorem clarificationComment_not_validated:
  "TriagePlanSchema_parse (JObj [(''needsClarification'', JBool True)])
     = Some \<lparr>rewrite = None, priority = None, teamId = None, labelIds = None, estimate = None,
             assigneeId = None, subtasks = None, needsClarification = True,
             clarificationComment = None\<rparr>
   \<and> TriagePlanSchema_parse
       (JObj [(''needsClarification'', JBool True), (''clarificationComment'', JStr s)])
     = Some \<lparr>rewrite = None, priority = None, teamId = None, labelIds = None, estimate = None,
             assigneeId = None, subtasks = None, needsClarification = True,
             clarificationComment = Some s\<rparr>
   \<and> TriagePlanSchema_parse (JObj (kvs @ [(''clarificationComment'', JStr s)]))
     = map_option (\<lambda>p. p\<lparr>clarificationComment := Some s\<rparr>)
         (TriagePlanSchema_parse (JObj (kvs @ [(''clarificationComment'', JStr s')])))
   \<and> (''clarificationComment'' \<notin> fst ` set kvs \<longrightarrow>
        TriagePlanSchema_parse (JObj kvs)
        = map_option (\<lambda>p. p\<lparr>clarificationComment := None\<rparr>)
            (TriagePlanSchema_parse (JObj (kvs @ [(''clarificationComment'', JStr s)]))))
   \<and> (getOpenAIClient env g = (Inr (), []) \<and> attempt (llm w 0) = Some plan \<longrightarrow>
        getTriagePlan env g w c = (Inr plan, [LlmRequest (model_name env) c]))
   \<and> (getOpenAIClient env g = (Inr (), []) \<and> i < MAX_RETRIES
        \<and> (\<forall>j<i. attempt (llm w j) = None) \<and> attempt (llm w i) = Some plan' \<longrightarrow>
        getTriagePlan env g w c =
          (Inr plan',
           concat (map (\<lambda>j. [LlmRequest (model_name env) c,
                               Sleep (RETRY_DELAY_MS * (j + 1))]) [0..<i])
           @ [LlmRequest (model_name env) c])
        \<and> length (filter is_llm_request (snd (getTriagePlan env g w c))) = i + 1)"
proof (intro conjI impI)
  show "TriagePlanSchema_parse (JObj [(''needsClarification'', JBool True)])
     = Some \<lparr>rewrite = None, priority = None, teamId = None, labelIds = None, estimate = None,
             assigneeId = None, subtasks = None, needsClarification = True,
             clarificationComment = None\<rparr>"
    by simp
  show "TriagePlanSchema_parse
       (JObj [(''needsClarification'', JBool True), (''clarificationComment'', JStr s)])
     = Some \<lparr>rewrite = None, priority = None, teamId = None, labelIds = None, estimate = None,
             assigneeId = None, subtasks = None, needsClarification = True,
             clarificationComment = Some s\<rparr>"
    by simp
  show "TriagePlanSchema_parse (JObj (kvs @ [(''clarificationComment'', JStr s)]))
     = map_option (\<lambda>p. p\<lparr>clarificationComment := Some s\<rparr>)
         (TriagePlanSchema_parse (JObj (kvs @ [(''clarificationComment'', JStr s')])))"
    by (simp only: TriagePlanSchema_parse.simps get_prop_append)
       (simp split: Option.bind_split)
next
  assume a: "''clarificationComment'' \<notin> fst ` set kvs"
  show "TriagePlanSchema_parse (JObj kvs)
        = map_option (\<lambda>p. p\<lparr>clarificationComment := None\<rparr>)
            (TriagePlanSchema_parse (JObj (kvs @ [(''clarificationComment'', JStr s)])))"
    by (simp only: TriagePlanSchema_parse.simps get_prop_append get_prop_absent [OF a])
       (simp split: Option.bind_split)
next
  assume "getOpenAIClient env g = (Inr (), []) \<and> attempt (llm w 0) = Some plan"
  then show "getTriagePlan env g w c = (Inr plan, [LlmRequest (model_name env) c])"
    by (simp add: getTriagePlan_ready retryLoop_accepts MAX_RETRIES_def)
next
  assume h: "getOpenAIClient env g = (Inr (), []) \<and> i < MAX_RETRIES
        \<and> (\<forall>j<i. attempt (llm w j) = None) \<and> attempt (llm w i) = Some plan'"
  then show "getTriagePlan env g w c =
          (Inr plan',
           concat (map (\<lambda>j. [LlmRequest (model_name env) c,
                               Sleep (RETRY_DELAY_MS * (j + 1))]) [0..<i])
           @ [LlmRequest (model_name env) c])"
    by (intro getTriagePlan_accepts_at) simp_all
  from h show "length (filter is_llm_request (snd (getTriagePlan env g w c))) = i + 1"
    by (intro getTriagePlan_requests_at) simp_all
qed

theorem clarificationComment_not_validated_witness:
  "getOpenAIClient demo_env demo_globals = (Inr (), [])
   \<and> attempt (llm (demo_world (Content (Parses silent_reply))) 0) = Some silent_plan
   \<and> needsClarification silent_plan
   \<and> clarificationComment silent_plan = None
   \<and> getTriagePlan demo_env demo_globals (demo_world (Content (Parses silent_reply)))
        ''Title: Login''
     = (Inr silent_plan, [LlmRequest ''gpt-4o-mini'' ''Title: Login''])
   \<and> ''clarificationComment'' \<notin> fst ` set [(''needsClarification'', JBool True)]
   \<and> TriagePlanSchema_parse (JObj [(''needsClarification'', JBool True)])
     = map_option (\<lambda>p. p\<lparr>clarificationComment := None\<rparr>)
         (TriagePlanSchema_parse (JObj [(''needsClarification'', JBool True),
            (''clarificationComment'', JStr ''Which page?'')]))
   \<and> (2::nat) < MAX_RETRIES
   \<and> attempt (llm late_world 0) = None
   \<and> attempt (llm late_world 1) = None
   \<and> attempt (llm late_world 2) = Some silent_plan
   \<and> getTriagePlan demo_env demo_globals late_world ''Title: Login''
     = (Inr silent_plan,
        [LlmRequest ''gpt-4o-mini'' ''Title: Login'', Sleep 1000,
         LlmRequest ''gpt-4o-mini'' ''Title: Login'', Sleep 2000,
         LlmRequest ''gpt-4o-mini'' ''Title: Login''])
   \<and> length (filter is_llm_request
        (snd (getTriagePlan demo_env demo_globals late_world ''Title: Login''))) = 3"
proof -
  let ?w = "demo_world (Content (Parses silent_reply))"
  have a: "attempt (llm ?w 0) = Some silent_plan"
    by (simp only: demo_llm attempt_silent)
  have k: "''clarificationComment'' \<notin> fst ` set [(''needsClarification'', JBool True)]"
    by simp
  note t = clarificationComment_not_validated [where kvs = "[(''needsClarification'', JBool True)]"
      and s = "''Which page?''" and env = demo_env and g = demo_globals and w = ?w
      and plan = silent_plan and c = "''Title: Login''"]
  have p: "getTriagePlan demo_env demo_globals ?w ''Title: Login''
     = (Inr silent_plan, [LlmRequest ''gpt-4o-mini'' ''Title: Login''])"
    using t [THEN conjunct2, THEN conjunct2, THEN conjunct2, THEN conjunct2, THEN conjunct1]
      demo_openai a
    by (simp add: demo_model)
  have q: "TriagePlanSchema_parse (JObj [(''needsClarification'', JBool True)])
     = map_option (\<lambda>p. p\<lparr>clarificationComment := None\<rparr>)
         (TriagePlanSchema_parse (JObj [(''needsClarification'', JBool True),
            (''clarificationComment'', JStr ''Which page?'')]))"
    using t [THEN conjunct2, THEN conjunct2, THEN conjunct2, THEN conjunct1] k
    by simp
  have n: "needsClarification silent_plan" "clarificationComment silent_plan = None"
    by (simp_all add: silent_plan_def)
  have m: "(2::nat) < MAX_RETRIES" by (simp add: MAX_RETRIES_def)
  have e: "\<forall>j<2. attempt (llm late_world j) = None"
    using late_llm(1,2) by (simp add: less_Suc_eq numeral_2_eq_2)
  have two: "[0..<2] = [0, Suc 0]" by (simp add: upt_rec numeral_2_eq_2)
  note t2 = clarificationComment_not_validated [where env = demo_env and g = demo_globals
      and w = late_world and i = 2 and plan' = silent_plan and c = "''Title: Login''",
      THEN conjunct2, THEN conjunct2, THEN conjunct2, THEN conjunct2, THEN conjunct2,
      THEN mp, OF conjI [OF demo_openai conjI [OF m conjI [OF e late_llm(3)]]]]
  have r: "getTriagePlan demo_env demo_globals late_world ''Title: Login''
     = (Inr silent_plan,
        [LlmRequest ''gpt-4o-mini'' ''Title: Login'', Sleep 1000,
         LlmRequest ''gpt-4o-mini'' ''Title: Login'', Sleep 2000,
         LlmRequest ''gpt-4o-mini'' ''Title: Login''])"
    using t2 [THEN conjunct1] by (simp add: demo_model RETRY_DELAY_MS_def two)
  have l: "length (filter is_llm_request
        (snd (getTriagePlan demo_env demo_globals late_world ''Title: Login''))) = 3"
    using t2 [THEN conjunct2] by simp
  show ?thesis
    by (intro conjI demo_openai a n p k q m late_llm r l)
qed

text \<open>
  Claim C5 as stated fails: an output with \<open>needsClarification = true\<close> and no comment,
  and one whose comment does not end with the bot marker, are both accepted as the plan
  by the first attempt.
\<close>

theorem clarificationComment_not_validated_counterexample:
  "\<not> suffix BOT_MARKER ''Which page?''
   \<and> getTriagePlan demo_env demo_globals
       (demo_world (Content (Parses (JObj [(''needsClarification'', JBool True)])))) ''Title: Login''
     = (Inr \<lparr>rewrite = None, priority = None, teamId = None, labelIds = None, estimate = None,
             assigneeId = None, subtasks = None, needsClarification = True,
             clarificationComment = None\<rparr>,
        [LlmRequest ''gpt-4o-mini'' ''Title: Login''])
   \<and> getTriagePlan demo_env demo_globals
       (demo_world (Content (Parses (JObj [(''needsClarification'', JBool True),
           (''clarificationComment'', JStr ''Which page?'')])))) ''Title: Login''
     = (Inr \<lparr>rewrite = None, priority = None, teamId = None, labelIds = None, estimate = None,
             assigneeId = None, subtasks = None, needsClarification = True,
             clarificationComment = Some ''Which page?''\<rparr>,
        [LlmRequest ''gpt-4o-mini'' ''Title: Login''])"
  by (simp add: getTriagePlan_ready [OF demo_openai] retryLoop_accepts MAX_RETRIES_def
      demo_llm demo_model BOT_MARKER_def suffix_to_prefix)

section \<open>Retry exhaustion\<close>

text \<open>
  Claim C6. Plan generation sends at most \<open>MAX_RETRIES = 3\<close> requests. When every
  attempt fails, it pauses \<open>RETRY_DELAY_MS\<close> times the number of the failed attempt
  after the first and the second attempt, and fails with \<open>PlanGenerationFailed\<close> after
  the third. The new-issue handler then ends in an error, which is
  \<open>PlanGenerationFailed\<close> once the knowledge bases were loaded, and neither handler
  writes anything to the tracker.
\<close>

theorem getTriagePlan_retry_exhaustion:
  "length (filter is_llm_request (snd (getTriagePlan env g w c))) \<le> MAX_RETRIES
   \<and> MAX_RETRIES = 3
   \<and> ((\<forall>i<MAX_RETRIES. attempt (llm w i) = None) \<longrightarrow>
        (getOpenAIClient env g = (Inr (), []) \<longrightarrow>
           getTriagePlan env g w c =
             (Inl PlanGenerationFailed,
              [LlmRequest (model_name env) c, Sleep (RETRY_DELAY_MS * 1),
               LlmRequest (model_name env) c, Sleep (RETRY_DELAY_MS * 2),
               LlmRequest (model_name env) c]))
      \<and> (\<exists>e. fst (handleNewIssue env g w data) = Inl e)
      \<and> filter is_mutation (snd (handleNewIssue env g w data)) = []
      \<and> (getOpenAIClient env g = (Inr (), []) \<and> (\<exists>tk. kv w KB_KEY = Some (Parses tk))
           \<and> (\<exists>lk. kv w LABELS_KEY = Some (Parses lk)) \<longrightarrow>
           fst (handleNewIssue env g w data) = Inl PlanGenerationFailed)
      \<and> filter is_mutation (snd (handleComment env g w cdata)) = [])"
proof (intro conjI impI)
  show "length (filter is_llm_request (snd (getTriagePlan env g w c))) \<le> MAX_RETRIES"
    by (rule getTriagePlan_attempts)
  show "MAX_RETRIES = 3" by (simp add: MAX_RETRIES_def)
next
  assume f: "\<forall>i<MAX_RETRIES. attempt (llm w i) = None"
  have ex: "\<And>c. getOpenAIClient env g = (Inr (), []) \<Longrightarrow> getTriagePlan env g w c =
             (Inl PlanGenerationFailed,
              [LlmRequest (model_name env) c, Sleep (RETRY_DELAY_MS * 1),
               LlmRequest (model_name env) c, Sleep (RETRY_DELAY_MS * 2),
               LlmRequest (model_name env) c])"
    using f by (simp add: getTriagePlan_ready retryLoop_closed all_attempts_fail)
  show "getOpenAIClient env g = (Inr (), []) \<Longrightarrow> getTriagePlan env g w c =
             (Inl PlanGenerationFailed,
              [LlmRequest (model_name env) c, Sleep (RETRY_DELAY_MS * 1),
               LlmRequest (model_name env) c, Sleep (RETRY_DELAY_MS * 2),
               LlmRequest (model_name env) c])"
    by (rule ex)
  obtain e where e: "fst (getTriagePlan env g w (newIssueContent data)) = Inl e"
    using getTriagePlan_exhausted [OF f] by blast
  show "\<exists>e. fst (handleNewIssue env g w data) = Inl e"
    using handleNewIssue_plan_error [OF e] by blast
  show "filter is_mutation (snd (handleNewIssue env g w data)) = []"
    using handleNewIssue_plan_error [OF e] by blast
  show "filter is_mutation (snd (handleComment env g w cdata)) = []"
    by (rule handleComment_plan_error [OF f])
  assume "getOpenAIClient env g = (Inr (), []) \<and> (\<exists>tk. kv w KB_KEY = Some (Parses tk))
           \<and> (\<exists>lk. kv w LABELS_KEY = Some (Parses lk))"
  then obtain tk lk where r: "getOpenAIClient env g = (Inr (), [])"
    and k1: "kv w KB_KEY = Some (Parses tk)" and k2: "kv w LABELS_KEY = Some (Parses lk)"
    by blast
  have "fst (getTriagePlan env g w (newIssueContent data)) = Inl PlanGenerationFailed"
    by (simp add: ex [OF r])
  then show "fst (handleNewIssue env g w data) = Inl PlanGenerationFailed"
    by (rule handleNewIssue_plan_error_kb [OF k1 k2])
qed

theorem getTriagePlan_retry_exhaustion_witness:
  "attempt (llm (demo_world ApiError) 0) = None
   \<and> attempt (llm (demo_world ApiError) 1) = None
   \<and> attempt (llm (demo_world ApiError) 2) = None
   \<and> getOpenAIClient demo_env demo_globals = (Inr (), [])
   \<and> getTriagePlan demo_env demo_globals (demo_world ApiError) ''Title: Login''
       = (Inl PlanGenerationFailed,
          [LlmRequest ''gpt-4o-mini'' ''Title: Login'', Sleep 1000,
           LlmRequest ''gpt-4o-mini'' ''Title: Login'', Sleep 2000,
           LlmRequest ''gpt-4o-mini'' ''Title: Login''])
   \<and> fst (handleNewIssue demo_env demo_globals (demo_world ApiError)
        \<lparr>d_id = ''issue-1'', d_title = ''Login'', d_description = None, d_creator = None\<rparr>)
       = Inl PlanGenerationFailed
   \<and> filter is_mutation (snd (handleNewIssue demo_env demo_globals (demo_world ApiError)
        \<lparr>d_id = ''issue-1'', d_title = ''Login'', d_description = None, d_creator = None\<rparr>)) = []"
proof -
  have f: "\<forall>i<MAX_RETRIES. attempt (llm (demo_world ApiError) i) = None"
    by (simp add: demo_llm)
  have k: "(\<exists>tk. kv (demo_world ApiError) KB_KEY = Some (Parses tk))
         \<and> (\<exists>lk. kv (demo_world ApiError) LABELS_KEY = Some (Parses lk))"
    by (simp add: demo_kv_team demo_kv_labels)
  show ?thesis
    using getTriagePlan_retry_exhaustion [of demo_env demo_globals "demo_world ApiError"
        "''Title: Login''"
        "\<lparr>d_id = ''issue-1'', d_title = ''Login'', d_description = None, d_creator = None\<rparr>"]
      f k demo_openai
    by (simp add: demo_llm demo_model RETRY_DELAY_MS_def)
qed

section \<open>Label validation\<close>

text \<open>
  Claim C7, as the code has it. Once the label knowledge base is found in the KV store and
  parses: when it has no truthy \<open>data.issueLabels.nodes\<close>, \<open>validateLabelIds\<close> returns the
  empty sequence for every input; when \<open>nodes\<close> is an array without a null entry, it
  returns exactly the input IDs that some node carries as its \<open>id\<close>, which is a
  subsequence of the input in the original order, holds only IDs of the knowledge base, is
  empty for an empty input and is empty for an empty node list.
\<close>

theorem validateLabelIds_subsequence:
  assumes "kv w LABELS_KEY = Some (Parses kb)"
  shows "(\<not> js_truthy (kb_nodes kb) \<longrightarrow>
            validateLabelIds w ids = (Inr [], [KvGet LABELS_KEY]))
       \<and> (\<forall>ls. kb_nodes kb = Some (JArr ls) \<and> JNull \<notin> set ls \<longrightarrow>
            (\<exists>ys. validateLabelIds w ids = (Inr ys, [KvGet LABELS_KEY])
               \<and> ys = filter (\<lambda>i. \<exists>l \<in> set ls. get_prop l ''id'' = Some (JStr i)) ids
               \<and> subseq ys ids
               \<and> (\<forall>i \<in> set ys. \<exists>l \<in> set ls. get_prop l ''id'' = Some (JStr i))
               \<and> (ids = [] \<longrightarrow> ys = [])
               \<and> (ls = [] \<longrightarrow> ys = [])))"
proof (intro conjI allI impI)
  assume "\<not> js_truthy (kb_nodes kb)"
  then show "validateLabelIds w ids = (Inr [], [KvGet LABELS_KEY])"
    using assms by (simp add: validateLabelIds_def getLabelKnowledgeBase_def kvRead_Parses ret_def)
next
  fix ls
  assume h: "kb_nodes kb = Some (JArr ls) \<and> JNull \<notin> set ls"
  have has: "has_id (id_set ls) = (\<lambda>i. \<exists>l \<in> set ls. get_prop l ''id'' = Some (JStr i))"
    by (simp add: fun_eq_iff has_id_iff)
  have run: "validateLabelIds w ids = (Inr (filter (has_id (id_set ls)) ids), [KvGet LABELS_KEY])"
    using assms h
    by (simp add: validateLabelIds_def getLabelKnowledgeBase_def kvRead_Parses ret_def)
  show "\<exists>ys. validateLabelIds w ids = (Inr ys, [KvGet LABELS_KEY])
               \<and> ys = filter (\<lambda>i. \<exists>l \<in> set ls. get_prop l ''id'' = Some (JStr i)) ids
               \<and> subseq ys ids
               \<and> (\<forall>i \<in> set ys. \<exists>l \<in> set ls. get_prop l ''id'' = Some (JStr i))
               \<and> (ids = [] \<longrightarrow> ys = [])
               \<and> (ls = [] \<longrightarrow> ys = [])"
    unfolding run has by simp
qed

text \<open>
  The theorem at the knowledge base of the scenarios (the invented label is dropped) and
  at a knowledge base without the \<open>nodes\<close> path (an error answer of the tracker).
\<close>

theorem validateLabelIds_subsequence_witness:
  "kv (demo_world ApiError) LABELS_KEY = Some (Parses demo_label_kb)
   \<and> kb_nodes demo_label_kb = Some (JArr [JObj [(''id'', JStr ''label-id-bug''), (''name'', JStr ''Bug'')]])
   \<and> JNull \<notin> set [JObj [(''id'', JStr ''label-id-bug''), (''name'', JStr ''Bug'')]]
   \<and> validateLabelIds (demo_world ApiError) [''label-id-bug'', ''label-id-fake'']
       = (Inr [''label-id-bug''], [KvGet LABELS_KEY])
   \<and> kv ((demo_world ApiError)\<lparr>kv := demo_kv (JObj [(''errors'', JArr [])])\<rparr>) LABELS_KEY
       = Some (Parses (JObj [(''errors'', JArr [])]))
   \<and> \<not> js_truthy (kb_nodes (JObj [(''errors'', JArr [])]))
   \<and> validateLabelIds ((demo_world ApiError)\<lparr>kv := demo_kv (JObj [(''errors'', JArr [])])\<rparr>)
        [''label-id-bug''] = (Inr [], [KvGet LABELS_KEY])"
proof -
  have k: "kv (demo_world ApiError) LABELS_KEY = Some (Parses demo_label_kb)"
    by (rule demo_kv_labels)
  from validateLabelIds_subsequence [OF k, of "[''label-id-bug'', ''label-id-fake'']"]
  have "\<forall>ls. kb_nodes demo_label_kb = Some (JArr ls) \<and> JNull \<notin> set ls \<longrightarrow>
     (\<exists>ys. validateLabelIds (demo_world ApiError) [''label-id-bug'', ''label-id-fake'']
              = (Inr ys, [KvGet LABELS_KEY])
        \<and> ys = filter (\<lambda>i. \<exists>l \<in> set ls. get_prop l ''id'' = Some (JStr i))
                 [''label-id-bug'', ''label-id-fake''])"
    by blast
  then have a: "validateLabelIds (demo_world ApiError) [''label-id-bug'', ''label-id-fake'']
       = (Inr [''label-id-bug''], [KvGet LABELS_KEY])"
    using demo_nodes by simp
  have k2: "kv ((demo_world ApiError)\<lparr>kv := demo_kv (JObj [(''errors'', JArr [])])\<rparr>) LABELS_KEY
       = Some (Parses (JObj [(''errors'', JArr [])]))"
    by (simp add: demo_kv_def LABELS_KEY_def)
  have n2: "\<not> js_truthy (kb_nodes (JObj [(''errors'', JArr [])]))"
    by (simp add: kb_nodes_def)
  have b: "validateLabelIds ((demo_world ApiError)\<lparr>kv := demo_kv (JObj [(''errors'', JArr [])])\<rparr>)
        [''label-id-bug''] = (Inr [], [KvGet LABELS_KEY])"
    using validateLabelIds_subsequence [OF k2, of "[''label-id-bug'']"] n2 by blast
  show ?thesis using k demo_nodes a k2 n2 b by simp
qed

text \<open>
  Claim C7 as stated fails: a knowledge base whose \<open>nodes\<close> is the string \<open>x\<close> is
  malformed, and for the empty input the call ends in a TypeError, not in the empty
  sequence.
\<close>

theorem validateLabelIds_malformed_counterexample:
  "validateLabelIds
     ((demo_world ApiError)\<lparr>kv := demo_kv
        (JObj [(''data'', JObj [(''issueLabels'', JObj [(''nodes'', JStr ''x'')])])])\<rparr>) []
   = (Inl TypeError, [KvGet ''labels.json''])"
  by (simp add: validateLabelIds_def getLabelKnowledgeBase_def kvRead_def demo_kv_def
      LABELS_KEY_def kb_nodes_def throw_def ret_def)

section \<open>Label merge on re-triage\<close>

text \<open>
  Claim C8. On the completion path of a re-triage the handler issues one issue update,
  and the labels it sends are, as a set, the current labels of the issue without the
  awaiting-info label, united with the validated labels of the plan. In particular the
  current labels \<open>A\<close> and the marker, merged with the validated labels \<open>B\<close> and
  \<open>C\<close>, give exactly \<open>{A, B, C}\<close>.
\<close>

theorem retriage_label_merge:
  assumes "\<not> str_includes (d_body data) BOT_MARKER"
    and "getLinearClient env g = (Inr (), [])"
    and "issue_reply w (d_issue_id data) = Reply (Some iss)"
    and "truthy_str (AWAITING_INFO_LABEL_ID env) = Some m"
    and "m \<in> set (i_labelIds iss)"
    and "kv w KB_KEY = Some (Parses tk)" and "kv w LABELS_KEY = Some (Parses lk)"
    and "comments_reply w (d_issue_id data) = Reply (Some cs)"
    and "getTriagePlan env g w (retriageContent iss cs) = (Inr plan, tp)"
    and "clarification plan = None"
    and "fst (validateLabelIds w (or_nil (labelIds plan))) = Inr valid"
  shows "UpdateIssue (d_issue_id data)
           (retriageUpdate plan (finalLabelIds m (i_labelIds iss) valid))
           \<in> set (snd (handleComment env g w data))
       \<and> (\<forall>i p. UpdateIssue i p \<in> set (snd (handleComment env g w data)) \<longrightarrow>
             (\<exists>ls. upd_labelIds p = Some ls
                \<and> set ls = (set (i_labelIds iss) - {m}) \<union> set valid))
       \<and> (i_labelIds iss = [A, m] \<and> valid = [B, C] \<and> A \<noteq> m \<longrightarrow>
             (\<forall>i p. UpdateIssue i p \<in> set (snd (handleComment env g w data)) \<longrightarrow>
                (\<exists>ls. upd_labelIds p = Some ls \<and> set ls = {A, B, C})))"
proof -
  let ?u = "UpdateIssue (d_issue_id data)
              (retriageUpdate plan (finalLabelIds m (i_labelIds iss) valid))"
  have tp: "\<And>i p. UpdateIssue i p \<notin> set tp"
  proof
    fix i p assume "UpdateIssue i p \<in> set tp"
    then have "UpdateIssue i p \<in> set (snd (getTriagePlan env g w (retriageContent iss cs)))"
      using assms(9) by simp
    from getTriagePlan_calls [OF this] show False by auto
  qed
  have only: "\<And>i p. UpdateIssue i p \<in> set (snd (handleComment env g w data)) \<longleftrightarrow>
                 UpdateIssue i p = ?u"
    using tp
    by (auto simp: handleComment_with_plan [OF assms(1-9)]
        retriageActions_complete [OF assms(2,10,11)])
  have l: "upd_labelIds (retriageUpdate plan (finalLabelIds m (i_labelIds iss) valid))
             = Some (finalLabelIds m (i_labelIds iss) valid)"
    by (simp add: retriageUpdate_def)
  have all: "\<forall>i p. UpdateIssue i p \<in> set (snd (handleComment env g w data)) \<longrightarrow>
             (\<exists>ls. upd_labelIds p = Some ls
                \<and> set ls = (set (i_labelIds iss) - {m}) \<union> set valid)"
    using l by (auto simp: only set_finalLabelIds)
  have ex: "i_labelIds iss = [A, m] \<and> valid = [B, C] \<and> A \<noteq> m \<longrightarrow>
             (\<forall>i p. UpdateIssue i p \<in> set (snd (handleComment env g w data)) \<longrightarrow>
                (\<exists>ls. upd_labelIds p = Some ls \<and> set ls = {A, B, C}))"
  proof
    assume h: "i_labelIds iss = [A, m] \<and> valid = [B, C] \<and> A \<noteq> m"
    then have "(set (i_labelIds iss) - {m}) \<union> set valid = {A, B, C}" by auto
    then show "\<forall>i p. UpdateIssue i p \<in> set (snd (handleComment env g w data)) \<longrightarrow>
                (\<exists>ls. upd_labelIds p = Some ls \<and> set ls = {A, B, C})"
      using all by simp
  qed
  have mem: "?u \<in> set (snd (handleComment env g w data))"
    by (simp add: only)
  show ?thesis using mem all ex by blast
qed

theorem retriage_label_merge_witness:
  "\<not> str_includes (d_body demo_comment_data) BOT_MARKER
   \<and> getLinearClient demo_env demo_globals = (Inr (), [])
   \<and> issue_reply scenarioD_world (d_issue_id demo_comment_data) = Reply (Some demo_issue)
   \<and> truthy_str (AWAITING_INFO_LABEL_ID demo_env) = Some ''label-await''
   \<and> i_labelIds demo_issue = [''label-a'', ''label-await'']
   \<and> kv scenarioD_world KB_KEY = Some (Parses demo_team_kb)
   \<and> kv scenarioD_world LABELS_KEY = Some (Parses two_label_kb)
   \<and> comments_reply scenarioD_world (d_issue_id demo_comment_data) = Reply (Some demo_comments)
   \<and> getTriagePlan demo_env demo_globals scenarioD_world (retriageContent demo_issue demo_comments)
       = (Inr scenarioD_plan,
          [LlmRequest ''gpt-4o-mini'' (retriageContent demo_issue demo_comments)])
   \<and> clarification scenarioD_plan = None
   \<and> fst (validateLabelIds scenarioD_world (or_nil (labelIds scenarioD_plan)))
       = Inr [''label-b'', ''label-c'']
   \<and> UpdateIssue ''issue-1''
        \<lparr>upd_title = Some ''Login form rejects valid passwords'', upd_description = None,
         upd_teamId = None, upd_labelIds = Some [''label-a'', ''label-b'', ''label-c''],
         upd_estimate = None, upd_priority = None, upd_assigneeId = None\<rparr>
       \<in> set (snd (handleComment demo_env demo_globals scenarioD_world demo_comment_data))"
proof -
  have nb: "\<not> str_includes (d_body demo_comment_data) BOT_MARKER"
    by (simp add: demo_comment_data_def BOT_MARKER_def)
  have ls: "i_labelIds demo_issue = [''label-a'', ''label-await'']"
    by (simp add: demo_issue_def)
  have m: "''label-await'' \<in> set (i_labelIds demo_issue)"
    by (simp add: ls)
  have c: "clarification scenarioD_plan = None"
    by (simp add: clarification_def scenarioD_plan_def)
  have i: "d_issue_id demo_comment_data = ''issue-1''"
    by (simp add: demo_comment_data_def)
  have u: "retriageUpdate scenarioD_plan
             (finalLabelIds ''label-await'' (i_labelIds demo_issue) [''label-b'', ''label-c''])
           = \<lparr>upd_title = Some ''Login form rejects valid passwords'', upd_description = None,
              upd_teamId = None, upd_labelIds = Some [''label-a'', ''label-b'', ''label-c''],
              upd_estimate = None, upd_priority = None, upd_assigneeId = None\<rparr>"
    by (simp add: retriageUpdate_def finalLabelIds_def ls scenarioD_plan_def)
  note t = retriage_label_merge [OF nb demo_client scenarioD_replies(1) demo_marker m
      scenarioD_kv_team scenarioD_kv_labels scenarioD_replies(2) scenarioD_getTriagePlan c
      scenarioD_validate, THEN conjunct1]
  have r: "UpdateIssue ''issue-1''
        \<lparr>upd_title = Some ''Login form rejects valid passwords'', upd_description = None,
         upd_teamId = None, upd_labelIds = Some [''label-a'', ''label-b'', ''label-c''],
         upd_estimate = None, upd_priority = None, upd_assigneeId = None\<rparr>
       \<in> set (snd (handleComment demo_env demo_globals scenarioD_world demo_comment_data))"
    using t unfolding u i .
  show ?thesis
    by (intro conjI nb demo_client scenarioD_replies demo_marker ls scenarioD_kv_team
        scenarioD_kv_labels scenarioD_getTriagePlan c scenarioD_validate r)
qed

section \<open>The awaiting-info label on the new-issue path\<close>

text \<open>
  Claim C9. On the clarification branch of a new issue, with an awaiting-info label
  configured and the comment created, the handler issues one issue update, and its
  \<open>labelIds\<close> field is the one-element list with the awaiting-info label.
\<close>

theorem marker_replaces_labels:
  assumes "kv w KB_KEY = Some (Parses tk)" and "kv w LABELS_KEY = Some (Parses lk)"
    and "getTriagePlan env g w (newIssueContent data) = (Inr plan, tp)"
    and "clarification plan = Some c"
    and "getLinearClient env g = (Inr (), [])"
    and "success w (CreateComment (d_id data) c) = Reply True"
    and "truthy_str (AWAITING_INFO_LABEL_ID env) = Some m"
  shows "snd (handleNewIssue env g w data) =
           KvGet KB_KEY # KvGet LABELS_KEY # tp @
           [CreateComment (d_id data) c, UpdateIssue (d_id data) (markerOnly m)]
       \<and> upd_labelIds (markerOnly m) = Some [m]
       \<and> (\<forall>i p. UpdateIssue i p \<in> set (snd (handleNewIssue env g w data)) \<longrightarrow>
             i = d_id data \<and> upd_labelIds p = Some [m])"
proof -
  have t: "snd (handleNewIssue env g w data) =
           KvGet KB_KEY # KvGet LABELS_KEY # tp @
           [CreateComment (d_id data) c, UpdateIssue (d_id data) (markerOnly m)]"
    using assms(6,7)
    by (simp add: handleNewIssue_with_plan [OF assms(1,2,3)]
        newIssueActions_clarify [OF assms(5) assms(4)])
  have tp: "\<And>i p. UpdateIssue i p \<notin> set tp"
  proof
    fix i p assume "UpdateIssue i p \<in> set tp"
    then have "UpdateIssue i p \<in> set (snd (getTriagePlan env g w (newIssueContent data)))"
      using assms(3) by simp
    from getTriagePlan_calls [OF this] show False by auto
  qed
  show ?thesis unfolding t using tp by (auto simp: markerOnly_def)
qed

theorem marker_replaces_labels_witness:
  "kv (demo_world (Content (Parses scenarioB_reply))) KB_KEY = Some (Parses demo_team_kb)
   \<and> kv (demo_world (Content (Parses scenarioB_reply))) LABELS_KEY = Some (Parses demo_label_kb)
   \<and> getTriagePlan demo_env demo_globals (demo_world (Content (Parses scenarioB_reply)))
        (newIssueContent demo_issue_data)
      = (Inr scenarioB_plan, [LlmRequest ''gpt-4o-mini'' (newIssueContent demo_issue_data)])
   \<and> clarification scenarioB_plan = Some ''Can you clarify X?<!-- bot -->''
   \<and> getLinearClient demo_env demo_globals = (Inr (), [])
   \<and> success (demo_world (Content (Parses scenarioB_reply)))
        (CreateComment (d_id demo_issue_data) ''Can you clarify X?<!-- bot -->'') = Reply True
   \<and> truthy_str (AWAITING_INFO_LABEL_ID demo_env) = Some ''label-await''
   \<and> snd (handleNewIssue demo_env demo_globals
        (demo_world (Content (Parses scenarioB_reply))) demo_issue_data)
      = [KvGet KB_KEY, KvGet LABELS_KEY,
         LlmRequest ''gpt-4o-mini'' (newIssueContent demo_issue_data),
         CreateComment ''issue-1'' ''Can you clarify X?<!-- bot -->'',
         UpdateIssue ''issue-1''
           \<lparr>upd_title = None, upd_description = None, upd_teamId = None,
            upd_labelIds = Some [''label-await''], upd_estimate = None,
            upd_priority = None, upd_assigneeId = None\<rparr>]"
proof -
  let ?w = "demo_world (Content (Parses scenarioB_reply))"
  have p: "getTriagePlan demo_env demo_globals ?w (newIssueContent demo_issue_data)
      = (Inr scenarioB_plan, [LlmRequest ''gpt-4o-mini'' (newIssueContent demo_issue_data)])"
    by (rule demo_getTriagePlan [OF attempt_scenarioB])
  have c: "clarification scenarioB_plan = Some ''Can you clarify X?<!-- bot -->''"
    by (simp add: clarification_def scenarioB_plan_def)
  have s: "success ?w (CreateComment (d_id demo_issue_data) ''Can you clarify X?<!-- bot -->'')
             = Reply True"
    by (rule demo_success)
  have "snd (handleNewIssue demo_env demo_globals ?w demo_issue_data)
      = [KvGet KB_KEY, KvGet LABELS_KEY,
         LlmRequest ''gpt-4o-mini'' (newIssueContent demo_issue_data),
         CreateComment ''issue-1'' ''Can you clarify X?<!-- bot -->'',
         UpdateIssue ''issue-1'' (markerOnly ''label-await'')]"
    using marker_replaces_labels [OF demo_kv_team demo_kv_labels p c demo_client s demo_marker,
        THEN conjunct1]
    by (simp add: demo_data_fields)
  then show ?thesis
    using demo_kv_team demo_kv_labels p c demo_client s demo_marker
    by (simp add: markerOnly_def)
qed

section \<open>Subscription of the creator\<close>

text \<open>
  Claim C10. On the completion branch of a new issue, once the issue update succeeded, a
  subscription is requested if and only if the payload holds a creator, and it is for that
  creator. Without a creator the handler goes on after the update: it creates the
  requested subtasks and posts the completion reaction, and it ends without error when
  the reaction is accepted.
\<close>

theorem subscribe_iff_creator:
  assumes "kv w KB_KEY = Some (Parses tk)" and "kv w LABELS_KEY = Some (Parses lk)"
    and "getTriagePlan env g w (newIssueContent data) = (Inr plan, tp)"
    and "clarification plan = None"
    and "getLinearClient env g = (Inr (), [])"
    and "fst (validateLabelIds w (or_nil (labelIds plan))) = Inr valid"
    and "success w (UpdateIssue (d_id data) (newIssueUpdate plan valid)) = Reply True"
  shows "((\<exists>i u. Subscribe i u \<in> set (snd (handleNewIssue env g w data)))
            \<longleftrightarrow> d_creator data \<noteq> None)
       \<and> (\<forall>i u. Subscribe i u \<in> set (snd (handleNewIssue env g w data)) \<longrightarrow>
             i = d_id data \<and> d_creator data = Some u)
       \<and> (d_creator data = None \<longrightarrow>
            snd (handleNewIssue env g w data) =
              KvGet KB_KEY # KvGet LABELS_KEY # tp @
              KvGet LABELS_KEY # UpdateIssue (d_id data) (newIssueUpdate plan valid) #
              map (CreateSubtask (d_id data)) (or_nil (subtasks plan)) @
              [AddReaction (d_id data) CHECK_MARK]
          \<and> (success w (AddReaction (d_id data) CHECK_MARK) = Reply True \<longrightarrow>
               fst (handleNewIssue env g w data) = Inr ()))"
proof -
  have tp: "\<And>i u. Subscribe i u \<notin> set tp"
  proof
    fix i u assume "Subscribe i u \<in> set tp"
    then have "Subscribe i u \<in> set (snd (getTriagePlan env g w (newIssueContent data)))"
      using assms(3) by simp
    from getTriagePlan_calls [OF this] show False by auto
  qed
  note h = handleNewIssue_with_plan [OF assms(1,2,3)]
    newIssueActions_complete [OF assms(5,4,6,7)]
  show ?thesis
  proof (cases "d_creator data")
    case None
    then show ?thesis using tp
      by (auto simp: h addReaction_ready [OF assms(5)])
  next
    case (Some u)
    then show ?thesis using tp
      by (auto simp: h)
  qed
qed

theorem subscribe_iff_creator_witness:
  "kv (demo_world (Content (Parses scenarioA_reply))) KB_KEY = Some (Parses demo_team_kb)
   \<and> kv (demo_world (Content (Parses scenarioA_reply))) LABELS_KEY = Some (Parses demo_label_kb)
   \<and> getTriagePlan demo_env demo_globals (demo_world (Content (Parses scenarioA_reply)))
        (newIssueContent (demo_issue_data\<lparr>d_creator := None\<rparr>))
      = (Inr scenarioA_plan,
         [LlmRequest ''gpt-4o-mini'' (newIssueContent (demo_issue_data\<lparr>d_creator := None\<rparr>))])
   \<and> clarification scenarioA_plan = None
   \<and> getLinearClient demo_env demo_globals = (Inr (), [])
   \<and> fst (validateLabelIds (demo_world (Content (Parses scenarioA_reply)))
        (or_nil (labelIds scenarioA_plan))) = Inr [''label-id-bug'']
   \<and> success (demo_world (Content (Parses scenarioA_reply)))
        (UpdateIssue ''issue-1'' (newIssueUpdate scenarioA_plan [''label-id-bug''])) = Reply True
   \<and> d_creator (demo_issue_data\<lparr>d_creator := None\<rparr>) = None
   \<and> snd (handleNewIssue demo_env demo_globals (demo_world (Content (Parses scenarioA_reply)))
        (demo_issue_data\<lparr>d_creator := None\<rparr>))
      = [KvGet KB_KEY, KvGet LABELS_KEY,
         LlmRequest ''gpt-4o-mini'' (newIssueContent (demo_issue_data\<lparr>d_creator := None\<rparr>)),
         KvGet LABELS_KEY,
         UpdateIssue ''issue-1'' (newIssueUpdate scenarioA_plan [''label-id-bug'']),
         AddReaction ''issue-1'' CHECK_MARK]
   \<and> fst (handleNewIssue demo_env demo_globals (demo_world (Content (Parses scenarioA_reply)))
        (demo_issue_data\<lparr>d_creator := None\<rparr>)) = Inr ()
   \<and> d_creator demo_issue_data = Some ''user-1''
   \<and> Subscribe ''issue-1'' ''user-1'' \<in> set (snd (handleNewIssue demo_env demo_globals
        (demo_world (Content (Parses scenarioA_reply))) demo_issue_data))"
proof -
  let ?w = "demo_world (Content (Parses scenarioA_reply))"
  let ?d = "demo_issue_data\<lparr>d_creator := None\<rparr>"
  have p: "getTriagePlan demo_env demo_globals ?w (newIssueContent ?d)
      = (Inr scenarioA_plan, [LlmRequest ''gpt-4o-mini'' (newIssueContent ?d)])"
    by (rule demo_getTriagePlan [OF attempt_scenarioA])
  have p': "getTriagePlan demo_env demo_globals ?w (newIssueContent demo_issue_data)
      = (Inr scenarioA_plan, [LlmRequest ''gpt-4o-mini'' (newIssueContent demo_issue_data)])"
    by (rule demo_getTriagePlan [OF attempt_scenarioA])
  have d: "d_id ?d = ''issue-1''" "d_creator ?d = None"
    by (simp_all add: demo_issue_data_def)
  have u: "success ?w (UpdateIssue (d_id ?d) (newIssueUpdate scenarioA_plan [''label-id-bug'']))
             = Reply True"
    by (rule demo_success)
  have u': "success ?w (UpdateIssue (d_id demo_issue_data)
              (newIssueUpdate scenarioA_plan [''label-id-bug''])) = Reply True"
    by (rule demo_success)
  have st: "subtasks scenarioA_plan = None" by (simp add: scenarioA_plan_def)
  note t = subscribe_iff_creator [OF demo_kv_team demo_kv_labels p clarification_scenarioA
      demo_client validate_scenarioA u]
  note t' = subscribe_iff_creator [OF demo_kv_team demo_kv_labels p' clarification_scenarioA
      demo_client validate_scenarioA u']
  note n = t [THEN conjunct2, THEN conjunct2, THEN mp, OF d(2)]
  have a: "snd (handleNewIssue demo_env demo_globals ?w ?d)
      = [KvGet KB_KEY, KvGet LABELS_KEY, LlmRequest ''gpt-4o-mini'' (newIssueContent ?d),
         KvGet LABELS_KEY,
         UpdateIssue ''issue-1'' (newIssueUpdate scenarioA_plan [''label-id-bug'']),
         AddReaction ''issue-1'' CHECK_MARK]"
    using n [THEN conjunct1] by (simp add: d(1) st)
  have b: "fst (handleNewIssue demo_env demo_globals ?w ?d) = Inr ()"
    using n [THEN conjunct2] by (simp add: demo_success)
  have "\<exists>i u. Subscribe i u \<in> set (snd (handleNewIssue demo_env demo_globals ?w demo_issue_data))"
    using t' [THEN conjunct1] by (simp add: demo_data_fields)
  then obtain i u where
    iu: "Subscribe i u \<in> set (snd (handleNewIssue demo_env demo_globals ?w demo_issue_data))"
    by blast
  have "i = d_id demo_issue_data \<and> d_creator demo_issue_data = Some u"
    using t' [THEN conjunct2, THEN conjunct1] iu by blast
  then have c: "Subscribe ''issue-1'' ''user-1''
      \<in> set (snd (handleNewIssue demo_env demo_globals ?w demo_issue_data))"
    using iu by (simp add: demo_data_fields)
  have u0: "success ?w (UpdateIssue ''issue-1'' (newIssueUpdate scenarioA_plan [''label-id-bug'']))
             = Reply True"
    by (rule demo_success)
  show ?thesis
    by (intro conjI demo_kv_team demo_kv_labels p clarification_scenarioA demo_client
        validate_scenarioA u0 d(2) a b c demo_data_fields(2))
qed

end
